theory Spec2Isabelle
  imports Complex_Main
begin

section \<open>The data-access layer of the University Services dashboard (app.py)\<close>

text \<open>
  The program is a Streamlit script. Its two helpers, \<open>run_query\<close> and \<open>fetch_data\<close>,
  talk to a MySQL store through mysql.connector and pandas; the page handlers call them
  with fixed SQL strings. The helpers and the handlers are translated from app.py. The
  driver, pandas and the store are not part of the program: they are modelled as an
  explicit world (the committed store, the connections and cursors that are open, the
  statements the server has run, the messages shown to the user) and a record of the
  faults the driver raises during one call.
\<close>

subsection \<open>Exceptions, values, tables\<close>

text \<open>
  Python exceptions that the driver and pandas can raise inside the helpers. All of them
  are subclasses of \<open>Exception\<close>; \<open>DbError\<close> stands for mysql.connector.Error and
  its subclasses, \<open>OtherException\<close> for every other subclass of \<open>Exception\<close>.
\<close>

datatype exn = DbError string | OtherException string

text \<open>Scalar values that travel as statement parameters and as cells of a result.\<close>

datatype val =
    NullV
  | is_StrV: StrV (un_StrV: string)
  | is_IntV: IntV (un_IntV: int)
  | is_NumV: NumV (un_NumV: rat)
  | is_DateV: DateV (un_DateV: "nat \<times> nat \<times> nat")

text \<open>
  A pandas DataFrame: its column labels and its rows. \<open>pd.DataFrame()\<close> has neither;
  \<open>.empty\<close> holds when one of the two axes has length 0.
\<close>

record dataframe =
  columns :: "string list"
  rows :: "val list list"

definition DataFrame :: dataframe where
  "DataFrame = \<lparr>columns = [], rows = []\<rparr>"

definition df_empty :: "dataframe \<Rightarrow> bool" where
  "df_empty df = (columns df = [] \<or> rows df = [])"

subsection \<open>The relational store\<close>

text \<open>
  Modelled from the spec: the schema of the store is not part of app.py. Section 6 of the
  spec gives the tables \<open>Students(student_id PK, first_name, last_name, email)\<close>,
  \<open>Services(service_id PK, service_name, base_cost)\<close> and
  \<open>StudentServices(id PK, student_id FK, service_id FK, service_date, service_cost)\<close>;
  section 3 says that the identifiers of services and assignments are assigned by the
  store. Costs are exact decimals, modelled as rationals.
\<close>

record student_row =
  student_id :: string
  first_name :: string
  last_name :: string
  email :: string

record service_row =
  service_id :: int
  service_name :: string
  base_cost :: rat

record assignment_row =
  ss_id :: int
  ss_student_id :: string
  ss_service_id :: int
  service_date :: "nat \<times> nat \<times> nat"
  service_cost :: rat

record db =
  Students :: "student_row list"
  Services :: "service_row list"
  StudentServices :: "assignment_row list"
  next_service_id :: int
  next_ss_id :: int

text \<open>
  Modelled from the spec: a row of the view
  \<open>vw_student_services(student_id, student_name, service_name, service_date, service_cost)\<close>
  of section 6.
\<close>

record history_row =
  h_student_id :: string
  student_name :: string
  h_service_name :: string
  h_service_date :: "nat \<times> nat \<times> nat"
  h_service_cost :: rat

datatype fk_action = Restrict | Cascade

text \<open>
  What the schema leaves open is a parameter of the store: what deleting a referenced
  student does, the two views (computed by the store from its tables), the comparison of
  characters under the collation of the name column, and the store's answer to every
  statement that is not modelled below.
\<close>

record schema =
  on_delete_student :: fk_action
  vw_student_services :: "db \<Rightarrow> history_row list"
  vw_total_cost_per_student :: "db \<Rightarrow> (string \<times> rat) list"
  collation :: "char \<Rightarrow> char \<Rightarrow> bool"
  other_command :: "db \<Rightarrow> string \<Rightarrow> val list option \<Rightarrow> exn + db \<times> nat"
  other_query :: "db \<Rightarrow> string \<Rightarrow> val list option \<Rightarrow> exn + dataframe"

subsection \<open>The world around one call\<close>

datatype ui_event = Toast string | ErrorBox string | Warning string | Rerun

record world =
  store :: db
  open_conns :: nat
  open_cursors :: nat
  executed :: "(string \<times> val list option) list"
  ui :: "ui_event list"

text \<open>
  The faults of the driver during one call of a helper: for each driver call of the
  helper's try block, the exception it raises, if any. \<open>drops_conn\<close> says that a
  failing execute, commit or read also loses the connection to the server, so that
  \<open>is_connected()\<close> answers False afterwards. The closing calls
  (\<open>cursor.close()\<close>, \<open>conn.close()\<close>) and \<open>is_connected()\<close> do not raise.
\<close>

record faults =
  connect_fault :: "exn option"
  cursor_fault :: "exn option"
  execute_fault :: "exn option"
  commit_fault :: "exn option"
  read_fault :: "exn option"
  drops_conn :: bool

definition no_faults :: faults where
  "no_faults = \<lparr>connect_fault = None, cursor_fault = None, execute_fault = None,
     commit_fault = None, read_fault = None, drops_conn = False\<rparr>"

text \<open>
  A connection object: whether it is connected, and the effect of the statements run on
  it that are not committed yet (autocommit is off in mysql.connector; closing a
  connection discards them).
\<close>

record conn =
  connected :: bool
  pending :: "db option"

type_synonym engine = "db \<Rightarrow> string \<Rightarrow> val list option \<Rightarrow> exn + db \<times> nat"

definition get_connection :: "faults \<Rightarrow> world \<Rightarrow> (exn + conn) \<times> world" where
  "get_connection f w =
     (case connect_fault f of
        Some e \<Rightarrow> (Inl e, w)
      | None \<Rightarrow> (Inr \<lparr>connected = True, pending = None\<rparr>,
                 w\<lparr>open_conns := Suc (open_conns w)\<rparr>))"

definition lose :: "faults \<Rightarrow> conn \<Rightarrow> world \<Rightarrow> conn \<times> world" where
  "lose f c w =
     (if drops_conn f \<and> connected c
      then (c\<lparr>connected := False, pending := None\<rparr>, w\<lparr>open_conns := open_conns w - 1\<rparr>)
      else (c, w))"

definition conn_cursor :: "faults \<Rightarrow> conn \<Rightarrow> world \<Rightarrow> (exn + unit) \<times> world" where
  "conn_cursor f c w =
     (case cursor_fault f of
        Some e \<Rightarrow> (Inl e, w)
      | None \<Rightarrow> (Inr (), w\<lparr>open_cursors := Suc (open_cursors w)\<rparr>))"

definition cursor_execute ::
  "engine \<Rightarrow> faults \<Rightarrow> string \<Rightarrow> val list option \<Rightarrow> conn \<Rightarrow> world \<Rightarrow> (exn + unit) \<times> conn \<times> world"
where
  "cursor_execute eng f query params c w =
     (case execute_fault f of
        Some e \<Rightarrow> (Inl e, lose f c w)
      | None \<Rightarrow>
          (case eng (store w) query params of
             Inl e \<Rightarrow> (Inl e, c, w\<lparr>executed := executed w @ [(query, params)]\<rparr>)
           | Inr (d, n) \<Rightarrow>
               (Inr (), c\<lparr>pending := Some d\<rparr>,
                w\<lparr>executed := executed w @ [(query, params)]\<rparr>)))"

definition conn_commit :: "faults \<Rightarrow> conn \<Rightarrow> world \<Rightarrow> (exn + unit) \<times> conn \<times> world" where
  "conn_commit f c w =
     (case commit_fault f of
        Some e \<Rightarrow> (Inl e, lose f c w)
      | None \<Rightarrow>
          (Inr (), c\<lparr>pending := None\<rparr>,
           (case pending c of None \<Rightarrow> w | Some d \<Rightarrow> w\<lparr>store := d\<rparr>)))"

definition cursor_close :: "world \<Rightarrow> world" where
  "cursor_close w = w\<lparr>open_cursors := open_cursors w - 1\<rparr>"

definition is_connected :: "conn \<Rightarrow> bool" where
  "is_connected c = connected c"

definition conn_close :: "conn \<Rightarrow> world \<Rightarrow> world" where
  "conn_close c w = (if connected c then w\<lparr>open_conns := open_conns w - 1\<rparr> else w)"

definition st_toast :: "string \<Rightarrow> world \<Rightarrow> world" where
  "st_toast m w = w\<lparr>ui := ui w @ [Toast m]\<rparr>"

definition st_error :: "string \<Rightarrow> world \<Rightarrow> world" where
  "st_error m w = w\<lparr>ui := ui w @ [ErrorBox m]\<rparr>"

definition st_warning :: "string \<Rightarrow> world \<Rightarrow> world" where
  "st_warning m w = w\<lparr>ui := ui w @ [Warning m]\<rparr>"

definition st_rerun :: "world \<Rightarrow> world" where
  "st_rerun w = w\<lparr>ui := ui w @ [Rerun]\<rparr>"

subsection \<open>run_query\<close>

text \<open>
  The state at the end of the try block of \<open>run_query\<close>: the exception in flight, the
  local variables \<open>conn\<close> and \<open>cursor\<close> (None until assigned) and the world.
\<close>

record try_state =
  raised :: "exn option"
  conn_var :: "conn option"
  cursor_var :: "unit option"
  world_of :: world

definition run_query_try ::
  "engine \<Rightarrow> faults \<Rightarrow> string \<Rightarrow> val list option \<Rightarrow> world \<Rightarrow> try_state"
where
  "run_query_try eng f query params w =
     (case get_connection f w of
        (Inl e, w1) \<Rightarrow> \<lparr>raised = Some e, conn_var = None, cursor_var = None, world_of = w1\<rparr>
      | (Inr c, w1) \<Rightarrow>
          (case conn_cursor f c w1 of
             (Inl e, w2) \<Rightarrow>
               \<lparr>raised = Some e, conn_var = Some c, cursor_var = None, world_of = w2\<rparr>
           | (Inr cur, w2) \<Rightarrow>
               (case cursor_execute eng f query params c w2 of
                  (Inl e, c3, w3) \<Rightarrow>
                    \<lparr>raised = Some e, conn_var = Some c3, cursor_var = Some cur, world_of = w3\<rparr>
                | (Inr u, c3, w3) \<Rightarrow>
                    (case conn_commit f c3 w3 of
                       (Inl e, c4, w4) \<Rightarrow>
                         \<lparr>raised = Some e, conn_var = Some c4, cursor_var = Some cur,
                          world_of = w4\<rparr>
                     | (Inr u', c4, w4) \<Rightarrow>
                         \<lparr>raised = None, conn_var = Some c4, cursor_var = Some cur,
                          world_of = st_toast ''Operation successful!'' w4\<rparr>))))"

text \<open>\<open>except mysql.connector.Error as err: st.error(f"Error: {err}")\<close>\<close>

definition run_query_except :: "try_state \<Rightarrow> try_state" where
  "run_query_except s =
     (case raised s of
        Some (DbError m) \<Rightarrow> s\<lparr>raised := None, world_of := st_error (''Error: '' @ m) (world_of s)\<rparr>
      | _ \<Rightarrow> s)"

text \<open>The finally block: close the cursor if there is one, the connection if connected.\<close>

definition run_query_finally :: "try_state \<Rightarrow> world" where
  "run_query_finally s =
     (let w1 = (case cursor_var s of Some cur \<Rightarrow> cursor_close (world_of s) | None \<Rightarrow> world_of s)
      in case conn_var s of
           Some c \<Rightarrow> (if is_connected c then conn_close c w1 else w1)
         | None \<Rightarrow> w1)"

text \<open>
  \<open>run_query\<close> returns nothing; the first component of the result is the exception that
  leaves the function, if any.
\<close>

definition run_query ::
  "engine \<Rightarrow> faults \<Rightarrow> string \<Rightarrow> val list option \<Rightarrow> world \<Rightarrow> exn option \<times> world"
where
  "run_query eng f query params w =
     (let s = run_query_except (run_query_try eng f query params w)
      in (raised s, run_query_finally s))"

subsection \<open>fetch_data\<close>

type_synonym query_engine = "db \<Rightarrow> string \<Rightarrow> val list option \<Rightarrow> exn + dataframe"

text \<open>
  \<open>pd.read_sql(query, conn, params=params)\<close>: pandas runs the statement on the connection
  and builds the DataFrame from the result set.
\<close>

definition read_sql ::
  "query_engine \<Rightarrow> faults \<Rightarrow> string \<Rightarrow> val list option \<Rightarrow> conn \<Rightarrow> world
     \<Rightarrow> (exn + dataframe) \<times> conn \<times> world"
where
  "read_sql qe f query params c w =
     (case read_fault f of
        Some e \<Rightarrow> (Inl e, lose f c w)
      | None \<Rightarrow>
          (qe (store w) query params, c, w\<lparr>executed := executed w @ [(query, params)]\<rparr>))"

text \<open>The try block of \<open>fetch_data\<close>: the value returned or the exception raised.\<close>

definition fetch_data_try ::
  "query_engine \<Rightarrow> faults \<Rightarrow> string \<Rightarrow> val list option \<Rightarrow> world \<Rightarrow> (exn + dataframe) \<times> world"
where
  "fetch_data_try qe f query params w =
     (case get_connection f w of
        (Inl e, w1) \<Rightarrow> (Inl e, w1)
      | (Inr c, w1) \<Rightarrow>
          (case read_sql qe f query params c w1 of
             (Inl e, c2, w2) \<Rightarrow> (Inl e, w2)
           | (Inr df, c2, w2) \<Rightarrow> (Inr df, conn_close c2 w2)))"

text \<open>
  \<open>except Exception as e: return pd.DataFrame()\<close>. The result is \<open>Inr\<close> of the value
  returned, or \<open>Inl\<close> of an exception that leaves the function.
\<close>

definition fetch_data ::
  "query_engine \<Rightarrow> faults \<Rightarrow> string \<Rightarrow> val list option \<Rightarrow> world \<Rightarrow> (exn + dataframe) \<times> world"
where
  "fetch_data qe f query params w =
     (case fetch_data_try qe f query params w of
        (Inl e, w1) \<Rightarrow> (Inr DataFrame, w1)
      | (Inr df, w1) \<Rightarrow> (Inr df, w1))"

subsection \<open>The statements of app.py and what the store does with them\<close>

definition sql_insert_student :: string where
  "sql_insert_student =
     ''INSERT INTO Students (student_id, first_name, last_name, email) VALUES (%s, %s, %s, %s)''"

definition sql_delete_student :: string where
  "sql_delete_student = ''DELETE FROM Students WHERE student_id = %s''"

definition sql_insert_service :: string where
  "sql_insert_service = ''INSERT INTO Services (service_name, base_cost) VALUES (%s, %s)''"

definition sql_insert_assignment :: string where
  "sql_insert_assignment =
     ''INSERT INTO StudentServices (student_id, service_id, service_date, service_cost) VALUES (%s, %s, %s, %s)''"

definition sql_count_students :: string where
  "sql_count_students = ''SELECT COUNT(*) as count FROM Students''"

definition sql_count_services :: string where
  "sql_count_services = ''SELECT COUNT(*) as count FROM StudentServices''"

definition sql_avg_cost :: string where
  "sql_avg_cost = ''SELECT AVG(service_cost) as avg_cost FROM StudentServices''"

definition sql_total_cost :: string where
  "sql_total_cost = ''SELECT * FROM vw_total_cost_per_student''"

definition sql_history_like :: string where
  "sql_history_like = ''SELECT * FROM vw_student_services WHERE student_name LIKE %s''"

definition sql_history :: string where
  "sql_history = ''SELECT * FROM vw_student_services''"

definition sql_students :: string where
  "sql_students = ''SELECT * FROM Students''"

definition sql_services :: string where
  "sql_services = ''SELECT * FROM Services''"

definition sql_student_names :: string where
  "sql_student_names = ''SELECT student_id, first_name, last_name FROM Students''"

definition sql_service_costs :: string where
  "sql_service_costs = ''SELECT service_id, service_name, base_cost FROM Services''"

text \<open>
  The store's side of the four commands. A primary key is unique, a foreign key must
  point to a row, and deleting by key removes the rows that match (none, when no row
  has the key) and reports how many it removed.
\<close>

definition insert_student :: "db \<Rightarrow> string \<Rightarrow> string \<Rightarrow> string \<Rightarrow> string \<Rightarrow> exn + db \<times> nat" where
  "insert_student d sid fname lname mail =
     (if sid \<in> set (map student_id (Students d))
      then Inl (DbError ''1062 (23000): Duplicate entry'')
      else Inr (d\<lparr>Students := Students d @
                  [\<lparr>student_id = sid, first_name = fname, last_name = lname, email = mail\<rparr>]\<rparr>, 1))"

definition delete_student :: "schema \<Rightarrow> db \<Rightarrow> string \<Rightarrow> exn + db \<times> nat" where
  "delete_student sch d sid =
     (let n = length (filter (\<lambda>r. student_id r = sid) (Students d));
          referenced = (sid \<in> set (map ss_student_id (StudentServices d)))
      in if 0 < n \<and> referenced \<and> on_delete_student sch = Restrict
         then Inl (DbError ''1451 (23000): Cannot delete or update a parent row'')
         else Inr (d\<lparr>Students := filter (\<lambda>r. student_id r \<noteq> sid) (Students d),
                     StudentServices :=
                       (if 0 < n then filter (\<lambda>a. ss_student_id a \<noteq> sid) (StudentServices d)
                        else StudentServices d)\<rparr>, n))"

definition insert_service :: "db \<Rightarrow> string \<Rightarrow> rat \<Rightarrow> exn + db \<times> nat" where
  "insert_service d name cost =
     Inr (d\<lparr>Services := Services d @
              [\<lparr>service_id = next_service_id d, service_name = name, base_cost = cost\<rparr>],
            next_service_id := next_service_id d + 1\<rparr>, 1)"

definition insert_assignment ::
  "db \<Rightarrow> string \<Rightarrow> int \<Rightarrow> nat \<times> nat \<times> nat \<Rightarrow> rat \<Rightarrow> exn + db \<times> nat"
where
  "insert_assignment d sid svc day cost =
     (if sid \<in> set (map student_id (Students d)) \<and> svc \<in> set (map service_id (Services d))
      then Inr (d\<lparr>StudentServices := StudentServices d @
                  [\<lparr>ss_id = next_ss_id d, ss_student_id = sid, ss_service_id = svc,
                    service_date = day, service_cost = cost\<rparr>],
                  next_ss_id := next_ss_id d + 1\<rparr>, 1)
      else Inl (DbError ''1452 (23000): Cannot add or update a child row''))"

text \<open>
  The server's answer to a command. A statement of app.py with parameters of the types
  app.py sends is run as above; everything else is left to \<open>other_command\<close>.
\<close>

definition mysql_execute :: "schema \<Rightarrow> engine" where
  "mysql_execute sch d query params =
     (if query = sql_insert_student then
        (case params of
           Some [a, b, c, e] \<Rightarrow>
             (if is_StrV a \<and> is_StrV b \<and> is_StrV c \<and> is_StrV e
              then insert_student d (un_StrV a) (un_StrV b) (un_StrV c) (un_StrV e)
              else other_command sch d query params)
         | _ \<Rightarrow> other_command sch d query params)
      else if query = sql_delete_student then
        (case params of
           Some [a] \<Rightarrow>
             (if is_StrV a then delete_student sch d (un_StrV a)
              else other_command sch d query params)
         | _ \<Rightarrow> other_command sch d query params)
      else if query = sql_insert_service then
        (case params of
           Some [a, b] \<Rightarrow>
             (if is_StrV a \<and> is_NumV b then insert_service d (un_StrV a) (un_NumV b)
              else other_command sch d query params)
         | _ \<Rightarrow> other_command sch d query params)
      else if query = sql_insert_assignment then
        (case params of
           Some [a, b, c, e] \<Rightarrow>
             (if is_StrV a \<and> is_IntV b \<and> is_DateV c \<and> is_NumV e
              then insert_assignment d (un_StrV a) (un_IntV b) (un_DateV c) (un_NumV e)
              else other_command sch d query params)
         | _ \<Rightarrow> other_command sch d query params)
      else other_command sch d query params)"

subsection \<open>LIKE\<close>

text \<open>
  The LIKE operator of MySQL, pattern first: \<open>%\<close> matches any run of characters (also
  none), \<open>_\<close> matches one character, a backslash makes the character after it literal
  (a backslash that ends the pattern stands for itself), and every other character
  matches the characters equal to it under the collation \<open>eq\<close>.
\<close>

fun like :: "(char \<Rightarrow> char \<Rightarrow> bool) \<Rightarrow> string \<Rightarrow> string \<Rightarrow> bool" where
  "like eq [] s = (s = [])"
| "like eq (p # ps) [] = (p = CHR ''%'' \<and> like eq ps [])"
| "like eq (p # ps) (c # cs) =
     (if p = CHR ''%'' then like eq ps (c # cs) \<or> like eq (p # ps) cs
      else if p = CHR ''_'' then like eq ps cs
      else if p = CHR 0x5C then
        (case ps of [] \<Rightarrow> eq c p \<and> cs = [] | q # qs \<Rightarrow> eq c q \<and> like eq qs cs)
      else eq c p \<and> like eq ps cs)"

text \<open>
  Containment as a substring, in the words of the spec: \<open>t\<close> occurs in \<open>s\<close> when \<open>s\<close>
  has a run of consecutive characters that equal those of \<open>t\<close> one by one.
\<close>

fun starts_with :: "(char \<Rightarrow> char \<Rightarrow> bool) \<Rightarrow> string \<Rightarrow> string \<Rightarrow> bool" where
  "starts_with eq [] s = True"
| "starts_with eq (t # ts) [] = False"
| "starts_with eq (t # ts) (c # cs) = (eq c t \<and> starts_with eq ts cs)"

fun contains :: "(char \<Rightarrow> char \<Rightarrow> bool) \<Rightarrow> string \<Rightarrow> string \<Rightarrow> bool" where
  "contains eq t [] = starts_with eq t []"
| "contains eq t (c # cs) = (starts_with eq t (c # cs) \<or> contains eq t cs)"

definition wildcard :: "char \<Rightarrow> bool" where
  "wildcard c = (c = CHR ''%'' \<or> c = CHR ''_'' \<or> c = CHR 0x5C)"

subsection \<open>Queries\<close>

definition student_cells :: "student_row \<Rightarrow> val list" where
  "student_cells r = [StrV (student_id r), StrV (first_name r), StrV (last_name r), StrV (email r)]"

definition service_cells :: "service_row \<Rightarrow> val list" where
  "service_cells r = [IntV (service_id r), StrV (service_name r), NumV (base_cost r)]"

definition history_cells :: "history_row \<Rightarrow> val list" where
  "history_cells r =
     [StrV (h_student_id r), StrV (student_name r), StrV (h_service_name r),
      DateV (h_service_date r), NumV (h_service_cost r)]"

definition history_columns :: "string list" where
  "history_columns =
     [''student_id'', ''student_name'', ''service_name'', ''service_date'', ''service_cost'']"

text \<open>\<open>AVG\<close> of a column: NULL over no rows, the exact mean otherwise.\<close>

definition sql_avg :: "rat list \<Rightarrow> val" where
  "sql_avg xs = (if xs = [] then NullV else NumV (sum_list xs / of_nat (length xs)))"

text \<open>
  The server's answer to a query. The queries of app.py are answered from the tables and
  the views; everything else is left to \<open>other_query\<close>.
\<close>

definition mysql_query :: "schema \<Rightarrow> query_engine" where
  "mysql_query sch d query params =
     (if query = sql_count_students \<and> params = None then
        Inr \<lparr>columns = [''count''], rows = [[IntV (int (length (Students d)))]]\<rparr>
      else if query = sql_count_services \<and> params = None then
        Inr \<lparr>columns = [''count''], rows = [[IntV (int (length (StudentServices d)))]]\<rparr>
      else if query = sql_avg_cost \<and> params = None then
        Inr \<lparr>columns = [''avg_cost''],
             rows = [[sql_avg (map service_cost (StudentServices d))]]\<rparr>
      else if query = sql_total_cost \<and> params = None then
        Inr \<lparr>columns = [''student_id'', ''total_cost''],
             rows = map (\<lambda>(s, t). [StrV s, NumV t]) (vw_total_cost_per_student sch d)\<rparr>
      else if query = sql_history \<and> params = None then
        Inr \<lparr>columns = history_columns,
             rows = map history_cells (vw_student_services sch d)\<rparr>
      else if query = sql_history_like then
        (case params of
           Some [a] \<Rightarrow>
             (if is_StrV a
              then Inr \<lparr>columns = history_columns,
                        rows = map history_cells
                          (filter (\<lambda>r. like (collation sch) (un_StrV a) (student_name r))
                             (vw_student_services sch d))\<rparr>
              else other_query sch d query params)
         | _ \<Rightarrow> other_query sch d query params)
      else if query = sql_students \<and> params = None then
        Inr \<lparr>columns = [''student_id'', ''first_name'', ''last_name'', ''email''],
             rows = map student_cells (Students d)\<rparr>
      else if query = sql_services \<and> params = None then
        Inr \<lparr>columns = [''service_id'', ''service_name'', ''base_cost''],
             rows = map service_cells (Services d)\<rparr>
      else if query = sql_student_names \<and> params = None then
        Inr \<lparr>columns = [''student_id'', ''first_name'', ''last_name''],
             rows = map (\<lambda>r. [StrV (student_id r), StrV (first_name r), StrV (last_name r)])
                      (Students d)\<rparr>
      else if query = sql_service_costs \<and> params = None then
        Inr \<lparr>columns = [''service_id'', ''service_name'', ''base_cost''],
             rows = map service_cells (Services d)\<rparr>
      else other_query sch d query params)"

text \<open>
  Modelled from the spec: the definition of the view \<open>vw_total_cost_per_student\<close> is in
  the store's schema, not in app.py. Section 3 of the spec calls it a per-student
  total-cost aggregation over the assignments: one row for each student that has
  assignments, with the sum of their \<open>service_cost\<close>.
\<close>

definition total_cost_view :: "db \<Rightarrow> (string \<times> rat) list" where
  "total_cost_view d =
     map (\<lambda>s. (s, sum_list (map service_cost
                  (filter (\<lambda>a. ss_student_id a = s) (StudentServices d)))))
       (remdups (map ss_student_id (StudentServices d)))"

subsection \<open>Python on cells\<close>

text \<open>\<open>df.iloc[0][name]\<close>: IndexError without a first row, KeyError without the column.\<close>

definition iloc0 :: "dataframe \<Rightarrow> string \<Rightarrow> exn + val" where
  "iloc0 df name =
     (case rows df of
        [] \<Rightarrow> Inl (OtherException ''IndexError'')
      | r # rs \<Rightarrow>
          (case map_of (zip (columns df) r) name of
             None \<Rightarrow> Inl (OtherException ''KeyError'')
           | Some v \<Rightarrow> Inr v))"

text \<open>The truth value of a cell: None, zero and the empty string are false.\<close>

fun truthy :: "val \<Rightarrow> bool" where
  "truthy NullV = False"
| "truthy (StrV s) = (s \<noteq> [])"
| "truthy (IntV i) = (i \<noteq> 0)"
| "truthy (NumV r) = (r \<noteq> 0)"
| "truthy (DateV d) = True"

text \<open>Rounding to the nearest integer, a tie to the even one.\<close>

definition round_half_even :: "rat \<Rightarrow> int" where
  "round_half_even x =
     (let n = \<lfloor>x\<rfloor>; r = x - of_int n
      in if r < 1 / 2 then n
         else if 1 / 2 < r then n + 1
         else if even n then n else n + 1)"

subsection \<open>Floats\<close>

text \<open>
  pandas hands the program a DECIMAL cell as a binary float (\<open>read_sql\<close> converts with
  \<open>coerce_float\<close>), so the number that line 100 rounds is the double nearest to the
  store's average. A float is modelled by its exact value, a rational, and negative zero
  apart. \<open>to_double x\<close> is the double nearest to \<open>x\<close>, a tie going to the even
  significand: \<open>bits\<close> counts binary digits and \<open>u\<close> is the distance between
  neighbouring doubles at \<open>x\<close> (never below \<open>2^-1074\<close>). Numbers
  beyond the largest double do not occur: a DECIMAL has at most 65 digits.
\<close>

fun bits :: "nat \<Rightarrow> nat" where
  "bits n = (if n = 0 then 0 else Suc (bits (n div 2)))"

declare bits.simps [simp del]

definition pow2 :: "int \<Rightarrow> rat" where
  "pow2 e = (if 0 \<le> e then 2 ^ nat e else 1 / 2 ^ nat (- e))"

text \<open>The exponent of a positive number \<open>a\<close>: the \<open>e\<close> with \<open>2^e \<le> a < 2^(e + 1)\<close>.\<close>

definition exponent :: "rat \<Rightarrow> int" where
  "exponent a =
     (if 1 \<le> a then int (bits (nat \<lfloor>a\<rfloor>)) - 1
      else
        let c = - int (bits (nat \<lfloor>1 / a\<rfloor>))
        in if pow2 (c + 1) \<le> a then c + 1 else c)"

definition to_double :: "rat \<Rightarrow> rat" where
  "to_double x =
     (if x = 0 then 0
      else
        let a = \<bar>x\<bar>;
            u = pow2 (max (exponent a - 52) (- 1074))
        in sgn x * of_int (round_half_even (a / u)) * u)"

text \<open>
  \<open>round(x, 2)\<close> on a float. CPython rounds the exact value of \<open>x\<close> to the nearest
  hundredth, a tie to the even one, and returns the double nearest to it. numpy, which
  rounds a float64 scalar, multiplies by 100 in floating point, rounds that to the
  nearest integer, a tie to the even one, and divides by 100. Which of the two runs
  depends on the type of the cell that pandas hands out, so the library is a parameter.
\<close>

datatype float_lib = CPython | NumPy

fun scaled :: "float_lib \<Rightarrow> rat \<Rightarrow> rat" where
  "scaled CPython x = x * 100"
| "scaled NumPy x = to_double (x * 100)"

definition round2 :: "float_lib \<Rightarrow> rat \<Rightarrow> rat" where
  "round2 lib x = to_double (of_int (round_half_even (scaled lib x)) / 100)"

text \<open>A Python number: an int, a float by its value, or the float \<open>-0.0\<close>.\<close>

datatype pynum = PyInt int | PyFloat rat | PyNegZero

text \<open>
  \<open>round(v, 2)\<close> on a cell. The sign of a float survives rounding, so a negative float
  that rounds to zero gives \<open>-0.0\<close>.
\<close>

fun py_round2 :: "float_lib \<Rightarrow> val \<Rightarrow> exn + pynum" where
  "py_round2 lib (NumV r) =
     Inr (if round2 lib (to_double r) = 0 \<and> r < 0 then PyNegZero
          else PyFloat (round2 lib (to_double r)))"
| "py_round2 lib (IntV i) = Inr (PyInt i)"
| "py_round2 lib v = Inl (OtherException ''TypeError'')"

text \<open>
  The text of a number in an f-string. A float prints as the shortest decimal that reads
  back as the same double. For the double nearest to a number of hundredths \<open>k / 100\<close>
  with \<open>k\<close> below \<open>2^52\<close> in size, that is \<open>k / 100\<close> written with one or two
  decimals; how every other float prints is the parameter \<open>other\<close>.
\<close>

definition digit :: "nat \<Rightarrow> char" where
  "digit n = ''0123456789'' ! n"

fun show_nat :: "nat \<Rightarrow> string" where
  "show_nat n = (if n < 10 then [digit n] else show_nat (n div 10) @ [digit (n mod 10)])"

declare show_nat.simps [simp del]

definition show_int :: "int \<Rightarrow> string" where
  "show_int i = (if i < 0 then ''-'' @ show_nat (nat (- i)) else show_nat (nat i))"

definition hundredths :: "int \<Rightarrow> string" where
  "hundredths k =
     (let a = nat \<bar>k\<bar>; h = a mod 100
      in (if k < 0 then ''-'' else []) @ show_nat (a div 100) @ ''.'' @
         (if h = 0 then ''0''
          else if h mod 10 = 0 then [digit (h div 10)]
          else [digit (h div 10), digit (h mod 10)]))"

definition float_str :: "(rat \<Rightarrow> string) \<Rightarrow> rat \<Rightarrow> string" where
  "float_str other x =
     (let k = round_half_even (x * 100)
      in if \<bar>k\<bar> < 2 ^ 52 \<and> to_double (of_int k / 100) = x then hundredths k else other x)"

fun pynum_str :: "(rat \<Rightarrow> string) \<Rightarrow> pynum \<Rightarrow> string" where
  "pynum_str other (PyInt i) = show_int i"
| "pynum_str other (PyFloat x) = float_str other x"
| "pynum_str other PyNegZero = ''-0.0''"

subsection \<open>The dashboard: average cost and service history\<close>

text \<open>
  Line 100 of app.py:
  \<open>round(df.iloc[0]['avg_cost'], 2) if not df.empty and df.iloc[0]['avg_cost'] else 0.0\<close>
\<close>

definition avg_cost_of :: "float_lib \<Rightarrow> dataframe \<Rightarrow> exn + pynum" where
  "avg_cost_of lib avg_cost_df =
     (if \<not> df_empty avg_cost_df then
        (case iloc0 avg_cost_df ''avg_cost'' of
           Inl e \<Rightarrow> Inl e
         | Inr v \<Rightarrow> if truthy v then py_round2 lib v else Inr (PyFloat 0))
      else Inr (PyFloat 0))"

text \<open>Lines 99 and 100: the fetch and the value of the metric.\<close>

definition avg_cost :: "schema \<Rightarrow> float_lib \<Rightarrow> faults \<Rightarrow> world \<Rightarrow> (exn + pynum) \<times> world" where
  "avg_cost sch lib f w =
     (case fetch_data (mysql_query sch) f sql_avg_cost None w of
        (Inl e, w1) \<Rightarrow> (Inl e, w1)
      | (Inr avg_cost_df, w1) \<Rightarrow> (avg_cost_of lib avg_cost_df, w1))"

text \<open>Lines 153 to 159: the search box and the table under it.\<close>

definition df_history :: "schema \<Rightarrow> faults \<Rightarrow> string \<Rightarrow> world \<Rightarrow> (exn + dataframe) \<times> world" where
  "df_history sch f search_term w =
     (if search_term \<noteq> [] then
        fetch_data (mysql_query sch) f sql_history_like
          (Some [StrV (''%'' @ search_term @ ''%'')]) w
      else fetch_data (mysql_query sch) f sql_history None w)"

subsection \<open>The forms and buttons\<close>

text \<open>
  Lines 192 to 198: the body of the Add Student form when Save Student is pressed, with
  the four text inputs as arguments. The first component of the result is the exception
  that stops the script run, if any.
\<close>

definition add_student_form ::
  "schema \<Rightarrow> faults \<Rightarrow> string \<Rightarrow> string \<Rightarrow> string \<Rightarrow> string \<Rightarrow> world \<Rightarrow> exn option \<times> world"
where
  "add_student_form sch f s_id f_name l_name email_in w =
     (if s_id \<noteq> [] \<and> f_name \<noteq> [] then
        (case run_query (mysql_execute sch) f sql_insert_student
                (Some [StrV s_id, StrV f_name, StrV l_name, StrV email_in]) w of
           (Some e, w1) \<Rightarrow> (Some e, w1)
         | (None, w1) \<Rightarrow> (None, st_rerun w1))
      else (None, st_warning ''Missing details.'' w))"

text \<open>Lines 203 to 206: the Delete button, pressed, with the text input as argument.\<close>

definition delete_student_button ::
  "schema \<Rightarrow> faults \<Rightarrow> string \<Rightarrow> world \<Rightarrow> exn option \<times> world"
where
  "delete_student_button sch f del_id w =
     (if del_id \<noteq> [] then
        (case run_query (mysql_execute sch) f sql_delete_student (Some [StrV del_id]) w of
           (Some e, w1) \<Rightarrow> (Some e, w1)
         | (None, w1) \<Rightarrow> (None, st_rerun w1))
      else (None, w))"









subsection \<open>Notions used in the statements, and a small store to run them on\<close>

text \<open>
  The first exception raised inside the try block of \<open>run_query\<close>, in the order of its
  calls: connect, open a cursor, execute (the driver, then the server), commit.
\<close>

definition first_error :: "engine \<Rightarrow> faults \<Rightarrow> string \<Rightarrow> val list option \<Rightarrow> db \<Rightarrow> exn option" where
  "first_error eng f query params d =
     (case connect_fault f of Some e \<Rightarrow> Some e | None \<Rightarrow>
     (case cursor_fault f of Some e \<Rightarrow> Some e | None \<Rightarrow>
     (case execute_fault f of Some e \<Rightarrow> Some e | None \<Rightarrow>
     (case eng d query params of Inl e \<Rightarrow> Some e | Inr x \<Rightarrow> commit_fault f))))"

text \<open>
  Modelled from the spec: the definition of the view \<open>vw_student_services\<close> is in the
  store's schema, not in app.py. Section 3 of the spec calls it a joined
  student/service/assignment listing: one row for each assignment, with its student and
  its service. The student's name is taken to be the first and the last name with a
  space between, as in the labels of the Assign Services tab. It is used in the examples
  only; the theorems hold for every view.
\<close>

definition student_services_view :: "db \<Rightarrow> history_row list" where
  "student_services_view d =
     concat (map (\<lambda>a.
       concat (map (\<lambda>s.
         map (\<lambda>v. \<lparr>h_student_id = student_id s,
                    student_name = first_name s @ '' '' @ last_name s,
                    h_service_name = service_name v,
                    h_service_date = service_date a,
                    h_service_cost = service_cost a\<rparr>)
           (filter (\<lambda>v. service_id v = ss_service_id a) (Services d)))
         (filter (\<lambda>s. student_id s = ss_student_id a) (Students d))))
       (StudentServices d))"

definition syntax_error :: exn where
  "syntax_error = DbError ''1064 (42000): You have an error in your SQL syntax''"

definition example_schema :: schema where
  "example_schema =
     \<lparr>on_delete_student = Restrict,
      vw_student_services = student_services_view,
      vw_total_cost_per_student = total_cost_view,
      collation = (=),
      other_command = (\<lambda>d q ps. Inl syntax_error),
      other_query = (\<lambda>d q ps. Inl syntax_error)\<rparr>"

definition ada :: student_row where
  "ada = \<lparr>student_id = ''S104'', first_name = ''Ada'', last_name = ''Lovelace'',
          email = ''ada@example.com''\<rparr>"

definition ada_params :: "val list option" where
  "ada_params = Some [StrV ''S104'', StrV ''Ada'', StrV ''Lovelace'', StrV ''ada@example.com'']"

definition empty_db :: db where
  "empty_db =
     \<lparr>Students = [], Services = [], StudentServices = [], next_service_id = 1, next_ss_id = 1\<rparr>"

definition ada_db :: db where
  "ada_db = empty_db\<lparr>Students := [ada]\<rparr>"

definition world0 :: "db \<Rightarrow> world" where
  "world0 d = \<lparr>store = d, open_conns = 0, open_cursors = 0, executed = [], ui = []\<rparr>"

definition cannot_connect :: exn where
  "cannot_connect = DbError ''2003 (HY000): Cannot connect to MySQL server''"

definition no_such_view :: exn where
  "no_such_view = DbError ''1146 (42S02): Table vw_student_services does not exist''"

text \<open>Lines 96 and 97: a COUNT query and \<open>.iloc[0]['count']\<close> on its result.\<close>

definition total_count :: "schema \<Rightarrow> faults \<Rightarrow> string \<Rightarrow> world \<Rightarrow> (exn + val) \<times> world" where
  "total_count sch f query w =
     (case fetch_data (mysql_query sch) f query None w of
        (Inl e, w1) \<Rightarrow> (Inl e, w1)
      | (Inr df, w1) \<Rightarrow> (iloc0 df ''count'', w1))"

text \<open>
  Lines 96 to 104, the three metrics of the dashboard, each fetch with its own faults:
  the two counts, the average cost, and what the three cards show. The text of the third
  card is \<open>f"${avg_cost}"\<close>.
\<close>

definition tab_dash_metrics ::
  "schema \<Rightarrow> float_lib \<Rightarrow> (rat \<Rightarrow> string) \<Rightarrow> faults \<Rightarrow> faults \<Rightarrow> faults \<Rightarrow> world
     \<Rightarrow> (exn + val \<times> val \<times> string) \<times> world"
where
  "tab_dash_metrics sch lib other f1 f2 f3 w =
     (case total_count sch f1 sql_count_students w of
        (Inl e, w1) \<Rightarrow> (Inl e, w1)
      | (Inr total_students, w1) \<Rightarrow>
     (case total_count sch f2 sql_count_services w1 of
        (Inl e, w2) \<Rightarrow> (Inl e, w2)
      | (Inr total_services, w2) \<Rightarrow>
     (case avg_cost sch lib f3 w2 of
        (Inl e, w3) \<Rightarrow> (Inl e, w3)
      | (Inr avg, w3) \<Rightarrow>
          (Inr (total_students, total_services, ''$'' @ pynum_str other avg), w3))))"

text \<open>No call of the driver raises.\<close>

definition driver_ok :: "faults \<Rightarrow> bool" where
  "driver_ok f =
     (connect_fault f = None \<and> cursor_fault f = None \<and> execute_fault f = None \<and>
      commit_fault f = None \<and> read_fault f = None)"

text \<open>A store for the scenarios of the spec.\<close>

definition tutoring :: service_row where
  "tutoring = \<lparr>service_id = 1, service_name = ''Tutoring'', base_cost = 25\<rparr>"

definition assignment :: "int \<Rightarrow> rat \<Rightarrow> assignment_row" where
  "assignment i c =
     \<lparr>ss_id = i, ss_student_id = ''S104'', ss_service_id = 1, service_date = (2025, 1, 15),
      service_cost = c\<rparr>"

definition three_db :: db where
  "three_db =
     \<lparr>Students = [ada], Services = [tutoring],
      StudentServices = [assignment 1 10, assignment 2 20, assignment 3 30],
      next_service_id = 2, next_ss_id = 4\<rparr>"

text \<open>A search term without a character that LIKE reads specially.\<close>

definition plain :: "string \<Rightarrow> bool" where
  "plain t = list_all (\<lambda>c. \<not> wildcard c) t"

definition grace :: student_row where
  "grace = \<lparr>student_id = ''S105'', first_name = ''Grace'', last_name = ''Hopper'',
            email = ''grace@example.com''\<rparr>"

definition campus_db :: db where
  "campus_db =
     \<lparr>Students = [ada, grace], Services = [tutoring],
      StudentServices =
        [assignment 1 20,
         \<lparr>ss_id = 2, ss_student_id = ''S105'', ss_service_id = 1, service_date = (2025, 2, 1),
          service_cost = 25\<rparr>],
      next_service_id = 2, next_ss_id = 3\<rparr>"

definition ada_history :: history_row where
  "ada_history =
     \<lparr>h_student_id = ''S104'', student_name = ''Ada Lovelace'', h_service_name = ''Tutoring'',
      h_service_date = (2025, 1, 15), h_service_cost = 20\<rparr>"

definition grace_history :: history_row where
  "grace_history =
     \<lparr>h_student_id = ''S105'', student_name = ''Grace Hopper'', h_service_name = ''Tutoring'',
      h_service_date = (2025, 2, 1), h_service_cost = 25\<rparr>"

text \<open>The same three assignments in another order, and three whose mean is 5/3.\<close>

definition shuffled_db :: db where
  "shuffled_db =
     three_db\<lparr>StudentServices := [assignment 1 30, assignment 2 10, assignment 3 20]\<rparr>"

definition thirds_db :: db where
  "thirds_db =
     three_db\<lparr>StudentServices := [assignment 1 1, assignment 2 2, assignment 3 2]\<rparr>"

text \<open>Both fetch faults absent: the connection opens and the read does not raise.\<close>

definition fetch_ok :: "faults \<Rightarrow> bool" where
  "fetch_ok f = (connect_fault f = None \<and> read_fault f = None)"

text \<open>A text for the floats that \<open>float_str\<close> leaves open; the examples do not reach it.\<close>

definition no_text :: "rat \<Rightarrow> string" where
  "no_text x = []"

subsection \<open>The Assign Services tab: what a label selects\<close>







section \<open>Properties of run_query\<close>

lemma close_after_open:
  "conn_close \<lparr>connected = True, pending = p\<rparr> (w\<lparr>open_conns := Suc n\<rparr>) = w\<lparr>open_conns := n\<rparr>"
  by (simp add: conn_close_def)

lemma rq_connect_fails:
  assumes "connect_fault f = Some e"
  shows "run_query eng f q ps w =
    (case e of DbError m \<Rightarrow> (None, st_error (''Error: '' @ m) w) | OtherException m \<Rightarrow> (Some e, w))"
  using assms
  by (cases e) (simp_all add: run_query_def run_query_try_def get_connection_def
      run_query_except_def run_query_finally_def)

lemma rq_cursor_fails:
  assumes "connect_fault f = None" "cursor_fault f = Some e"
  shows "run_query eng f q ps w =
    (case e of DbError m \<Rightarrow> (None, st_error (''Error: '' @ m) w) | OtherException m \<Rightarrow> (Some e, w))"
  using assms
  by (cases e) (simp_all add: run_query_def run_query_try_def get_connection_def
      conn_cursor_def run_query_except_def run_query_finally_def is_connected_def
      conn_close_def st_error_def)

lemma rq_execute_fails:
  assumes "connect_fault f = None" "cursor_fault f = None" "execute_fault f = Some e"
  shows "run_query eng f q ps w =
    (case e of DbError m \<Rightarrow> (None, st_error (''Error: '' @ m) w) | OtherException m \<Rightarrow> (Some e, w))"
  using assms
  by (cases e; cases "drops_conn f") (simp_all add: run_query_def run_query_try_def get_connection_def
      conn_cursor_def cursor_execute_def lose_def run_query_except_def run_query_finally_def
      is_connected_def conn_close_def cursor_close_def st_error_def)

lemma rq_statement_fails:
  assumes "connect_fault f = None" "cursor_fault f = None" "execute_fault f = None"
    "eng (store w) q ps = Inl e"
  shows "run_query eng f q ps w =
    (case e of
       DbError m \<Rightarrow> (None, st_error (''Error: '' @ m) (w\<lparr>executed := executed w @ [(q, ps)]\<rparr>))
     | OtherException m \<Rightarrow> (Some e, w\<lparr>executed := executed w @ [(q, ps)]\<rparr>))"
  using assms
  by (cases e) (simp_all add: run_query_def run_query_try_def get_connection_def
      conn_cursor_def cursor_execute_def run_query_except_def run_query_finally_def
      is_connected_def conn_close_def cursor_close_def st_error_def)

lemma rq_commit_fails:
  assumes "connect_fault f = None" "cursor_fault f = None" "execute_fault f = None"
    "eng (store w) q ps = Inr (d, n)" "commit_fault f = Some e"
  shows "run_query eng f q ps w =
    (case e of
       DbError m \<Rightarrow> (None, st_error (''Error: '' @ m) (w\<lparr>executed := executed w @ [(q, ps)]\<rparr>))
     | OtherException m \<Rightarrow> (Some e, w\<lparr>executed := executed w @ [(q, ps)]\<rparr>))"
  using assms
  by (cases e; cases "drops_conn f") (simp_all add: run_query_def run_query_try_def get_connection_def
      conn_cursor_def cursor_execute_def conn_commit_def lose_def run_query_except_def
      run_query_finally_def is_connected_def conn_close_def cursor_close_def st_error_def)

lemma rq_succeeds:
  assumes "connect_fault f = None" "cursor_fault f = None" "execute_fault f = None"
    "eng (store w) q ps = Inr (d, n)" "commit_fault f = None"
  shows "run_query eng f q ps w =
    (None, st_toast ''Operation successful!''
       (w\<lparr>store := d, executed := executed w @ [(q, ps)]\<rparr>))"
  using assms
  by (simp add: run_query_def run_query_try_def get_connection_def
      conn_cursor_def cursor_execute_def conn_commit_def run_query_except_def
      run_query_finally_def is_connected_def conn_close_def cursor_close_def st_toast_def)


lemma first_error_cases [case_names connect cursor execute statement commit ok]:
  assumes "\<And>e. connect_fault f = Some e \<Longrightarrow> first_error eng f q ps (store w) = Some e \<Longrightarrow> P"
    and "\<And>e. connect_fault f = None \<Longrightarrow> cursor_fault f = Some e \<Longrightarrow>
           first_error eng f q ps (store w) = Some e \<Longrightarrow> P"
    and "\<And>e. connect_fault f = None \<Longrightarrow> cursor_fault f = None \<Longrightarrow> execute_fault f = Some e \<Longrightarrow>
           first_error eng f q ps (store w) = Some e \<Longrightarrow> P"
    and "\<And>e. connect_fault f = None \<Longrightarrow> cursor_fault f = None \<Longrightarrow> execute_fault f = None \<Longrightarrow>
           eng (store w) q ps = Inl e \<Longrightarrow> first_error eng f q ps (store w) = Some e \<Longrightarrow> P"
    and "\<And>e d n. connect_fault f = None \<Longrightarrow> cursor_fault f = None \<Longrightarrow> execute_fault f = None \<Longrightarrow>
           eng (store w) q ps = Inr (d, n) \<Longrightarrow> commit_fault f = Some e \<Longrightarrow>
           first_error eng f q ps (store w) = Some e \<Longrightarrow> P"
    and "\<And>d n. connect_fault f = None \<Longrightarrow> cursor_fault f = None \<Longrightarrow> execute_fault f = None \<Longrightarrow>
           eng (store w) q ps = Inr (d, n) \<Longrightarrow> commit_fault f = None \<Longrightarrow>
           first_error eng f q ps (store w) = None \<Longrightarrow> P"
  shows P
proof (cases "connect_fault f")
  case (Some e)
  then show ?thesis using assms(1) by (simp add: first_error_def)
next
  case c1: None
  show ?thesis
  proof (cases "cursor_fault f")
    case (Some e)
    then show ?thesis using assms(2) c1 by (simp add: first_error_def)
  next
    case c2: None
    show ?thesis
    proof (cases "execute_fault f")
      case (Some e)
      then show ?thesis using assms(3) c1 c2 by (simp add: first_error_def)
    next
      case c3: None
      show ?thesis
      proof (cases "eng (store w) q ps")
        case (Inl e)
        then show ?thesis using assms(4) c1 c2 c3 by (simp add: first_error_def)
      next
        case (Inr r)
        obtain d n where r: "r = (d, n)" by (cases r)
        show ?thesis
        proof (cases "commit_fault f")
          case (Some e)
          then show ?thesis using assms(5) c1 c2 c3 Inr r by (simp add: first_error_def)
        next
          case None
          then show ?thesis using assms(6) c1 c2 c3 Inr r by (simp add: first_error_def)
        qed
      qed
    qed
  qed
qed

lemma run_query_no_error:
  assumes "first_error eng f q ps (store w) = None"
  shows "\<exists>d n. eng (store w) q ps = Inr (d, n) \<and>
           run_query eng f q ps w =
             (None, w\<lparr>store := d, executed := executed w @ [(q, ps)],
                      ui := ui w @ [Toast ''Operation successful!'']\<rparr>)"
proof (cases rule: first_error_cases [of f eng q ps w])
  case (ok d n)
  then show ?thesis using rq_succeeds [of f eng w q ps d n] by (simp add: st_toast_def)
qed (use assms in simp_all)

lemma run_query_db_error:
  assumes "first_error eng f q ps (store w) = Some (DbError m)"
  shows "fst (run_query eng f q ps w) = None \<and>
         store (snd (run_query eng f q ps w)) = store w \<and>
         ui (snd (run_query eng f q ps w)) = ui w @ [ErrorBox (''Error: '' @ m)]"
proof (cases rule: first_error_cases [of f eng q ps w])
  case (connect e)
  then show ?thesis using assms rq_connect_fails [of f e eng q ps w] by (auto simp: st_error_def)
next
  case (cursor e)
  then show ?thesis using assms rq_cursor_fails [of f e eng q ps w] by (auto simp: st_error_def)
next
  case (execute e)
  then show ?thesis using assms rq_execute_fails [of f e eng q ps w] by (auto simp: st_error_def)
next
  case (statement e)
  then show ?thesis using assms rq_statement_fails [of f eng w q ps e] by (auto simp: st_error_def)
next
  case (commit e d n)
  then show ?thesis using assms rq_commit_fails [of f eng w q ps d n e] by (auto simp: st_error_def)
next
  case (ok d n)
  then show ?thesis using assms by simp
qed

lemma run_query_other_error:
  assumes "first_error eng f q ps (store w) = Some (OtherException m)"
  shows "fst (run_query eng f q ps w) = Some (OtherException m) \<and>
         store (snd (run_query eng f q ps w)) = store w \<and>
         ui (snd (run_query eng f q ps w)) = ui w"
proof (cases rule: first_error_cases [of f eng q ps w])
  case (connect e)
  then show ?thesis using assms rq_connect_fails [of f e eng q ps w] by auto
next
  case (cursor e)
  then show ?thesis using assms rq_cursor_fails [of f e eng q ps w] by auto
next
  case (execute e)
  then show ?thesis using assms rq_execute_fails [of f e eng q ps w] by auto
next
  case (statement e)
  then show ?thesis using assms rq_statement_fails [of f eng w q ps e] by auto
next
  case (commit e d n)
  then show ?thesis using assms rq_commit_fails [of f eng w q ps d n e] by auto
next
  case (ok d n)
  then show ?thesis using assms by simp
qed

lemma first_error_trichotomy:
  "first_error eng f q ps d = None \<or> (\<exists>m. first_error eng f q ps d = Some (DbError m)) \<or>
   (\<exists>m. first_error eng f q ps d = Some (OtherException m))"
proof (cases "first_error eng f q ps d")
  case None
  then show ?thesis by simp
next
  case (Some e)
  then show ?thesis by (cases e) simp_all
qed

lemma run_query_store:
  "store (snd (run_query eng f q ps w)) = store w \<or>
   (\<exists>d n. eng (store w) q ps = Inr (d, n) \<and> store (snd (run_query eng f q ps w)) = d)"
  using first_error_trichotomy [of eng f q ps "store w"]
proof (elim disjE exE)
  assume "first_error eng f q ps (store w) = None"
  from run_query_no_error [OF this] show ?thesis by auto
next
  fix m assume "first_error eng f q ps (store w) = Some (DbError m)"
  from run_query_db_error [OF this] show ?thesis by simp
next
  fix m assume "first_error eng f q ps (store w) = Some (OtherException m)"
  from run_query_other_error [OF this] show ?thesis by simp
qed

lemma run_query_counts:
  "open_conns (snd (run_query eng f q ps w)) = open_conns w \<and>
   open_cursors (snd (run_query eng f q ps w)) = open_cursors w"
proof (cases rule: first_error_cases [of f eng q ps w])
  case (connect e)
  then show ?thesis using rq_connect_fails [of f e eng q ps w] by (cases e) (simp_all add: st_error_def)
next
  case (cursor e)
  then show ?thesis using rq_cursor_fails [of f e eng q ps w] by (cases e) (simp_all add: st_error_def)
next
  case (execute e)
  then show ?thesis using rq_execute_fails [of f e eng q ps w] by (cases e) (simp_all add: st_error_def)
next
  case (statement e)
  then show ?thesis using rq_statement_fails [of f eng w q ps e] by (cases e) (simp_all add: st_error_def)
next
  case (commit e d n)
  then show ?thesis using rq_commit_fails [of f eng w q ps d n e] by (cases e) (simp_all add: st_error_def)
next
  case (ok d n)
  then show ?thesis using rq_succeeds [of f eng w q ps d n] by (simp add: st_toast_def)
qed


lemma insert_ada_empty:
  "mysql_execute example_schema empty_db sql_insert_student ada_params =
     Inr (ada_db, 1)"
  by (simp add: mysql_execute_def ada_params_def insert_student_def empty_db_def ada_db_def
      ada_def)

lemma insert_ada_again:
  "mysql_execute example_schema ada_db sql_insert_student ada_params =
     Inl (DbError ''1062 (23000): Duplicate entry'')"
  by (simp add: mysql_execute_def ada_params_def insert_student_def empty_db_def ada_db_def
      ada_def)

text \<open>
  C1. Whatever the statement, its parameters and the faults of the driver: when nothing
  raises, \<open>run_query\<close> leaves the store as the statement makes it and shows the success
  toast; when the first exception is a database error, it leaves the store as it was,
  shows \<open>Error:\<close> with the message of the error and raises nothing; and in every case
  the store is either the old one or the one the statement makes, never something
  between.
\<close>

theorem run_query_all_or_nothing:
  "(first_error eng f q ps (store w) = None \<longrightarrow>
      (\<exists>d n. eng (store w) q ps = Inr (d, n) \<and>
         run_query eng f q ps w =
           (None, w\<lparr>store := d, executed := executed w @ [(q, ps)],
                    ui := ui w @ [Toast ''Operation successful!'']\<rparr>))) \<and>
   (\<forall>m. first_error eng f q ps (store w) = Some (DbError m) \<longrightarrow>
      fst (run_query eng f q ps w) = None \<and>
      store (snd (run_query eng f q ps w)) = store w \<and>
      ui (snd (run_query eng f q ps w)) = ui w @ [ErrorBox (''Error: '' @ m)]) \<and>
   (store (snd (run_query eng f q ps w)) = store w \<or>
      (\<exists>d n. eng (store w) q ps = Inr (d, n) \<and> store (snd (run_query eng f q ps w)) = d))"
proof (intro conjI allI impI)
  assume "first_error eng f q ps (store w) = None"
  then show "\<exists>d n. eng (store w) q ps = Inr (d, n) \<and>
         run_query eng f q ps w =
           (None, w\<lparr>store := d, executed := executed w @ [(q, ps)],
                    ui := ui w @ [Toast ''Operation successful!'']\<rparr>)"
    by (rule run_query_no_error)
next
  fix m assume e: "first_error eng f q ps (store w) = Some (DbError m)"
  show "fst (run_query eng f q ps w) = None"
    using run_query_db_error [OF e] by simp
  show "store (snd (run_query eng f q ps w)) = store w"
    using run_query_db_error [OF e] by simp
  show "ui (snd (run_query eng f q ps w)) = ui w @ [ErrorBox (''Error: '' @ m)]"
    using run_query_db_error [OF e] by simp
next
  show "store (snd (run_query eng f q ps w)) = store w \<or>
      (\<exists>d n. eng (store w) q ps = Inr (d, n) \<and> store (snd (run_query eng f q ps w)) = d)"
    by (rule run_query_store)
qed

theorem run_query_all_or_nothing_witness:
  "first_error (mysql_execute example_schema) no_faults sql_insert_student ada_params
     (store (world0 empty_db)) = None \<and>
   run_query (mysql_execute example_schema) no_faults sql_insert_student ada_params
     (world0 empty_db) =
     (None, \<lparr>store = ada_db, open_conns = 0, open_cursors = 0,
             executed = [(sql_insert_student, ada_params)],
             ui = [Toast ''Operation successful!'']\<rparr>) \<and>
   first_error (mysql_execute example_schema) no_faults sql_insert_student ada_params
     (store (world0 ada_db)) = Some (DbError ''1062 (23000): Duplicate entry'') \<and>
   store (snd (run_query (mysql_execute example_schema) no_faults sql_insert_student
     ada_params (world0 ada_db))) = ada_db \<and>
   ui (snd (run_query (mysql_execute example_schema) no_faults sql_insert_student
     ada_params (world0 ada_db))) = [ErrorBox ''Error: 1062 (23000): Duplicate entry'']"
proof -
  have a: "first_error (mysql_execute example_schema) no_faults sql_insert_student ada_params
     (store (world0 empty_db)) = None"
    by (simp add: first_error_def no_faults_def world0_def insert_ada_empty)
  have b: "first_error (mysql_execute example_schema) no_faults sql_insert_student ada_params
     (store (world0 ada_db)) = Some (DbError ''1062 (23000): Duplicate entry'')"
    by (simp add: first_error_def no_faults_def world0_def insert_ada_again)
  from a run_query_all_or_nothing
    [of "mysql_execute example_schema" no_faults sql_insert_student ada_params "world0 empty_db"]
  have c: "run_query (mysql_execute example_schema) no_faults sql_insert_student ada_params
     (world0 empty_db) =
     (None, \<lparr>store = ada_db, open_conns = 0, open_cursors = 0,
             executed = [(sql_insert_student, ada_params)],
             ui = [Toast ''Operation successful!'']\<rparr>)"
    by (simp add: world0_def insert_ada_empty)
  from b run_query_all_or_nothing
    [of "mysql_execute example_schema" no_faults sql_insert_student ada_params "world0 ada_db"]
  have d: "store (snd (run_query (mysql_execute example_schema) no_faults sql_insert_student
       ada_params (world0 ada_db))) = ada_db \<and>
     ui (snd (run_query (mysql_execute example_schema) no_faults sql_insert_student
       ada_params (world0 ada_db))) = [ErrorBox ''Error: 1062 (23000): Duplicate entry'']"
    by (simp add: world0_def)
  from a b c d show ?thesis by simp
qed

text \<open>
  C3. After every call of \<open>run_query\<close>, whatever raised inside it and whether the
  exception was caught or leaves the function, as many connections and as many cursors
  are open as before the call: the connection and the cursor it opened are released.
\<close>

theorem run_query_releases:
  "open_conns (snd (run_query eng f q ps w)) = open_conns w \<and>
   open_cursors (snd (run_query eng f q ps w)) = open_cursors w"
  by (rule run_query_counts)


section \<open>Properties of fetch_data\<close>

lemmas sql_defs = sql_insert_student_def sql_delete_student_def sql_insert_service_def
  sql_insert_assignment_def sql_count_students_def sql_count_services_def sql_avg_cost_def
  sql_total_cost_def sql_history_like_def sql_history_def sql_students_def sql_services_def
  sql_student_names_def sql_service_costs_def

lemma fd_connect_fails:
  assumes "connect_fault f = Some e"
  shows "fetch_data qe f q ps w = (Inr DataFrame, w)"
  using assms by (simp add: fetch_data_def fetch_data_try_def get_connection_def)

lemma fd_read_fails:
  assumes "connect_fault f = None" "read_fault f = Some e"
  shows "fetch_data qe f q ps w =
    (Inr DataFrame, if drops_conn f then w else w\<lparr>open_conns := Suc (open_conns w)\<rparr>)"
  using assms
  by (simp add: fetch_data_def fetch_data_try_def get_connection_def read_sql_def lose_def)

lemma fd_query_fails:
  assumes "connect_fault f = None" "read_fault f = None" "qe (store w) q ps = Inl e"
  shows "fetch_data qe f q ps w =
    (Inr DataFrame, w\<lparr>open_conns := Suc (open_conns w), executed := executed w @ [(q, ps)]\<rparr>)"
  using assms
  by (simp add: fetch_data_def fetch_data_try_def get_connection_def read_sql_def)

lemma fd_succeeds:
  assumes "connect_fault f = None" "read_fault f = None" "qe (store w) q ps = Inr df"
  shows "fetch_data qe f q ps w = (Inr df, w\<lparr>executed := executed w @ [(q, ps)]\<rparr>)"
  using assms
  by (simp add: fetch_data_def fetch_data_try_def get_connection_def read_sql_def conn_close_def)

lemma fetch_data_cases [case_names connect read query ok]:
  assumes "\<And>e. connect_fault f = Some e \<Longrightarrow> P"
    and "\<And>e. connect_fault f = None \<Longrightarrow> read_fault f = Some e \<Longrightarrow> P"
    and "\<And>e. connect_fault f = None \<Longrightarrow> read_fault f = None \<Longrightarrow> qe (store w) q ps = Inl e \<Longrightarrow> P"
    and "\<And>df. connect_fault f = None \<Longrightarrow> read_fault f = None \<Longrightarrow> qe (store w) q ps = Inr df \<Longrightarrow> P"
  shows P
proof (cases "connect_fault f")
  case (Some e)
  then show ?thesis by (rule assms(1))
next
  case c1: None
  show ?thesis
  proof (cases "read_fault f")
    case (Some e)
    with c1 show ?thesis by (rule assms(2))
  next
    case c2: None
    show ?thesis
    proof (cases "qe (store w) q ps")
      case (Inl e)
      with c1 c2 show ?thesis by (rule assms(3))
    next
      case (Inr df)
      with c1 c2 show ?thesis by (rule assms(4))
    qed
  qed
qed

lemma fetch_data_returns: "\<exists>df. fst (fetch_data qe f q ps w) = Inr df"
proof (cases rule: fetch_data_cases [where f = f and qe = qe and w = w and q = q and ps = ps])
  case (connect e)
  then show ?thesis by (simp add: fd_connect_fails)
next
  case (read e)
  then show ?thesis by (simp add: fd_read_fails)
next
  case (query e)
  then show ?thesis by (simp add: fd_query_fails)
next
  case (ok df)
  then show ?thesis by (simp add: fd_succeeds)
qed

lemma fetch_data_failure:
  assumes "connect_fault f \<noteq> None \<or> read_fault f \<noteq> None \<or> (\<exists>e. qe (store w) q ps = Inl e)"
  shows "fst (fetch_data qe f q ps w) = Inr DataFrame"
proof (cases rule: fetch_data_cases [where f = f and qe = qe and w = w and q = q and ps = ps])
  case (connect e)
  then show ?thesis by (simp add: fd_connect_fails)
next
  case (read e)
  then show ?thesis by (simp add: fd_read_fails)
next
  case (query e)
  then show ?thesis by (simp add: fd_query_fails)
next
  case (ok df)
  then show ?thesis using assms by simp
qed

lemma fetch_data_store: "store (snd (fetch_data qe f q ps w)) = store w"
proof (cases rule: fetch_data_cases [where f = f and qe = qe and w = w and q = q and ps = ps])
  case (connect e)
  then show ?thesis by (simp add: fd_connect_fails)
next
  case (read e)
  then show ?thesis by (simp add: fd_read_fails)
next
  case (query e)
  then show ?thesis by (simp add: fd_query_fails)
next
  case (ok df)
  then show ?thesis by (simp add: fd_succeeds)
qed

lemma students_of_empty:
  "mysql_query example_schema empty_db sql_students None =
     Inr \<lparr>columns = [''student_id'', ''first_name'', ''last_name'', ''email''], rows = []\<rparr>"
  by (simp add: mysql_query_def sql_defs empty_db_def)

text \<open>
  C2 (as amended). \<open>fetch_data\<close> always returns a table and never raises. When the
  connection opens and the read succeeds it returns the store's result for the query;
  when the connection, the read or the query fails it returns \<open>pd.DataFrame()\<close>, which
  has no rows and no columns. That table is empty, as is every result without rows, so a
  caller that looks at \<open>.empty\<close> only cannot tell a failure from a result without rows.
\<close>

theorem fetch_data_empty_on_failure:
  "(\<exists>df. fst (fetch_data qe f q ps w) = Inr df) \<and>
   (\<forall>df. connect_fault f = None \<and> read_fault f = None \<and> qe (store w) q ps = Inr df \<longrightarrow>
      fst (fetch_data qe f q ps w) = Inr df) \<and>
   (connect_fault f \<noteq> None \<or> read_fault f \<noteq> None \<or> (\<exists>e. qe (store w) q ps = Inl e) \<longrightarrow>
      fst (fetch_data qe f q ps w) = Inr DataFrame) \<and>
   df_empty DataFrame \<and> columns DataFrame = [] \<and> rows DataFrame = [] \<and>
   (\<forall>df. rows df = [] \<longrightarrow> df_empty df)"
proof (intro conjI allI impI)
  show "\<exists>df. fst (fetch_data qe f q ps w) = Inr df" by (rule fetch_data_returns)
next
  fix df assume "connect_fault f = None \<and> read_fault f = None \<and> qe (store w) q ps = Inr df"
  then show "fst (fetch_data qe f q ps w) = Inr df" by (simp add: fd_succeeds)
next
  assume "connect_fault f \<noteq> None \<or> read_fault f \<noteq> None \<or> (\<exists>e. qe (store w) q ps = Inl e)"
  then show "fst (fetch_data qe f q ps w) = Inr DataFrame" by (rule fetch_data_failure)
qed (simp_all add: df_empty_def DataFrame_def)

theorem fetch_data_empty_on_failure_witness:
  "fst (fetch_data (mysql_query example_schema) no_faults sql_students None (world0 empty_db)) =
     Inr \<lparr>columns = [''student_id'', ''first_name'', ''last_name'', ''email''], rows = []\<rparr> \<and>
   fst (fetch_data (mysql_query example_schema) (no_faults\<lparr>connect_fault := Some cannot_connect\<rparr>)
         sql_students None (world0 empty_db)) = Inr DataFrame \<and>
   df_empty \<lparr>columns = [''student_id'', ''first_name'', ''last_name'', ''email''], rows = []\<rparr> \<and>
   df_empty DataFrame"
  using fetch_data_empty_on_failure
      [of "mysql_query example_schema" no_faults sql_students None "world0 empty_db"]
    fetch_data_empty_on_failure
      [of "mysql_query example_schema" "no_faults\<lparr>connect_fault := Some cannot_connect\<rparr>"
        sql_students None "world0 empty_db"]
  by (simp add: no_faults_def world0_def students_of_empty)

text \<open>
  C2 as stated fails: a query over an empty table returns no rows under the columns of
  the table, a failed fetch returns a table without columns, and the two are different
  values that a caller can tell apart.
\<close>

theorem fetch_data_failure_distinguishable:
  "fst (fetch_data (mysql_query example_schema) no_faults sql_students None (world0 empty_db)) =
     Inr \<lparr>columns = [''student_id'', ''first_name'', ''last_name'', ''email''], rows = []\<rparr> \<and>
   fst (fetch_data (mysql_query example_schema) (no_faults\<lparr>connect_fault := Some cannot_connect\<rparr>)
         sql_students None (world0 empty_db)) = Inr DataFrame \<and>
   fst (fetch_data (mysql_query example_schema) (no_faults\<lparr>connect_fault := Some cannot_connect\<rparr>)
         sql_students None (world0 empty_db)) \<noteq>
   fst (fetch_data (mysql_query example_schema) no_faults sql_students None (world0 empty_db))"
  by (simp add: fd_succeeds fd_connect_fails no_faults_def world0_def students_of_empty DataFrame_def)

text \<open>
  C4 fails on the code. When the connection opens and the read raises (here: the view is
  missing in the store), \<open>fetch_data\<close> returns the empty table and the connection it
  opened is still open: \<open>conn.close()\<close> stands after the read inside the try block, and
  the except branch does not close. \<open>run_query\<close> closes in a finally block.
\<close>

theorem fetch_data_leaves_connection_open:
  "fetch_data (mysql_query example_schema) (no_faults\<lparr>read_fault := Some no_such_view\<rparr>)
     sql_history None (world0 empty_db) =
     (Inr DataFrame, (world0 empty_db)\<lparr>open_conns := 1\<rparr>) \<and>
   open_conns (world0 empty_db) = 0"
  by (simp add: fd_read_fails no_faults_def world0_def)



section \<open>The dashboard metrics\<close>

lemma bits_0: "bits 0 = 0" by (simp add: bits.simps)

lemma bits_1: "bits 1 = 1" by (simp add: bits.simps)

lemma bits_Suc0: "bits (Suc 0) = 1" by (simp add: bits.simps)

lemma bits_Bit0: "bits (numeral (Num.Bit0 k)) = Suc (bits (numeral k))"
  by (subst bits.simps) simp

lemma bits_Bit1: "bits (numeral (Num.Bit1 k)) = Suc (bits (numeral k))"
  by (subst bits.simps) (simp add: numeral_Bit1_div_2)

lemmas bits_num = bits_0 bits_1 bits_Suc0 bits_Bit0 bits_Bit1

lemma rhe_near:
  assumes "\<bar>x - of_int n\<bar> < 1 / 2"
  shows "round_half_even x = n"
proof -
  have "\<lfloor>x\<rfloor> = n \<or> \<lfloor>x\<rfloor> = n - 1" using assms by linarith
  then show ?thesis
  proof
    assume f: "\<lfloor>x\<rfloor> = n"
    then have "of_int n \<le> x" by linarith
    with assms f show ?thesis by (simp add: round_half_even_def Let_def)
  next
    assume f: "\<lfloor>x\<rfloor> = n - 1"
    then have "x < of_int n" by linarith
    with assms have "1 / 2 < x - of_int (n - 1)" by simp
    with f show ?thesis by (simp add: round_half_even_def Let_def)
  qed
qed

lemma rhe_int: "round_half_even (of_int n) = n"
  by (rule rhe_near) simp

lemma rhe_num: "round_half_even (numeral k) = numeral k"
  using rhe_int [of "numeral k"] by simp

lemma rhe_error: "\<bar>of_int (round_half_even x) - x\<bar> \<le> 1 / 2"
proof -
  have "of_int \<lfloor>x\<rfloor> \<le> x" "x < of_int \<lfloor>x\<rfloor> + 1" by linarith+
  then show ?thesis by (auto simp: round_half_even_def Let_def)
qed

lemma to_double_eval:
  assumes "x \<noteq> 0" "exponent \<bar>x\<bar> = e" "pow2 (max (e - 52) (- 1074)) = u"
    and "round_half_even (\<bar>x\<bar> / u) = k"
  shows "to_double x = sgn x * of_int k * u"
  using assms by (simp add: to_double_def Let_def)

lemma exponent_ge1:
  assumes "1 \<le> a" "\<lfloor>a\<rfloor> = n" "bits (nat n) = Suc e"
  shows "exponent a = int e"
  using assms by (simp add: exponent_def)

lemma ulp_small: "pow2 (max (0 - 52) (- 1074)) = 1 / 4503599627370496"
  by (simp add: pow2_def)

lemma td20: "to_double 20 = 20"
proof -
  have e: "exponent \<bar>20 :: rat\<bar> = 4"
    using exponent_ge1 [of "\<bar>20\<bar>" 20 4] by (simp add: bits_num)
  have u: "pow2 (max (4 - 52) (- 1074)) = 1 / 281474976710656" by (simp add: pow2_def)
  have k: "round_half_even (\<bar>20 :: rat\<bar> / (1 / 281474976710656)) = 5629499534213120"
    by (rule rhe_near) simp
  from to_double_eval [OF _ e u k] show ?thesis by simp
qed

lemma td2000: "to_double 2000 = 2000"
proof -
  have e: "exponent \<bar>2000 :: rat\<bar> = 10"
    using exponent_ge1 [of "\<bar>2000\<bar>" 2000 10] by (simp add: bits_num)
  have u: "pow2 (max (10 - 52) (- 1074)) = 1 / 4398046511104" by (simp add: pow2_def)
  have k: "round_half_even (\<bar>2000 :: rat\<bar> / (1 / 4398046511104)) = 8796093022208000"
    by (rule rhe_near) simp
  from to_double_eval [OF _ e u k] show ?thesis by simp
qed

lemma td53: "to_double (5 / 3) = 7505999378950827 / 4503599627370496"
proof -
  have f: "\<lfloor>\<bar>5 / 3 :: rat\<bar>\<rfloor> = 1" by (simp add: floor_eq_iff)
  have e: "exponent \<bar>5 / 3 :: rat\<bar> = 0"
    using exponent_ge1 [OF _ f, of 0] by (simp add: bits_num)
  have k: "round_half_even (\<bar>5 / 3 :: rat\<bar> / (1 / 4503599627370496)) = 7505999378950827"
    by (rule rhe_near) simp
  from to_double_eval [OF _ e ulp_small k] show ?thesis by simp
qed

lemma td167: "to_double (167 / 100) = 940126422213591 / 562949953421312"
proof -
  have f: "\<lfloor>\<bar>167 / 100 :: rat\<bar>\<rfloor> = 1" by (simp add: floor_eq_iff)
  have e: "exponent \<bar>167 / 100 :: rat\<bar> = 0"
    using exponent_ge1 [OF _ f, of 0] by (simp add: bits_num)
  have k: "round_half_even (\<bar>167 / 100 :: rat\<bar> / (1 / 4503599627370496)) = 7521011377708728"
    by (rule rhe_near) simp
  from to_double_eval [OF _ e ulp_small k] show ?thesis by simp
qed

lemma td_scaled53:
  "to_double (187649984473770675 / 1125899906842624) = 2932031007402667 / 17592186044416"
proof -
  have f: "\<lfloor>\<bar>187649984473770675 / 1125899906842624 :: rat\<bar>\<rfloor> = 166"
    by (simp add: floor_eq_iff)
  have e: "exponent \<bar>187649984473770675 / 1125899906842624 :: rat\<bar> = 7"
    using exponent_ge1 [OF _ f, of 7] by (simp add: bits_num)
  have u: "pow2 (max (7 - 52) (- 1074)) = 1 / 35184372088832" by (simp add: pow2_def)
  have k: "round_half_even (\<bar>187649984473770675 / 1125899906842624 :: rat\<bar> /
             (1 / 35184372088832)) = 5864062014805334"
    by (rule rhe_near) simp
  from to_double_eval [OF _ e u k] show ?thesis by simp
qed

lemma round2_20: "round2 lib 20 = 20"
proof (cases lib)
  case CPython
  then show ?thesis by (simp add: round2_def rhe_num td20)
next
  case NumPy
  then show ?thesis by (simp add: round2_def td2000 rhe_num td20)
qed

lemma round2_53:
  "round2 lib (7505999378950827 / 4503599627370496) = 940126422213591 / 562949953421312"
proof (cases lib)
  case CPython
  have "round_half_even (187649984473770675 / 1125899906842624) = 167"
    by (rule rhe_near) simp
  with CPython show ?thesis by (simp add: round2_def td167)
next
  case NumPy
  have "round_half_even (2932031007402667 / 17592186044416) = 167"
    by (rule rhe_near) simp
  with NumPy show ?thesis by (simp add: round2_def td_scaled53 td167)
qed

lemma show_nat_digit: "n < 10 \<Longrightarrow> show_nat n = [digit n]"
  by (simp add: show_nat.simps)

lemma fs20: "float_str other 20 = ''20.0''"
proof -
  have s: "show_nat 20 = ''20''" by (simp add: show_nat.simps digit_def)
  show ?thesis by (simp add: float_str_def rhe_num td20 hundredths_def s Let_def)
qed

lemma fs167: "float_str other (940126422213591 / 562949953421312) = ''1.67''"
proof -
  have k: "round_half_even (23503160555339775 / 140737488355328) = 167"
    by (rule rhe_near) simp
  have s: "show_nat (Suc 0) = ''1''" by (subst show_nat.simps) (simp add: digit_def)
  show ?thesis by (simp add: float_str_def k td167 hundredths_def s digit_def Let_def)
qed


lemma round2_hundredth:
  "\<exists>k. \<bar>of_int k - scaled lib x\<bar> \<le> 1 / 2 \<and> round2 lib x = to_double (of_int k / 100)"
  using rhe_error [of "scaled lib x"] by (auto simp: round2_def)

lemma sum_list_insort: "sum_list (insort x xs) = (x :: rat) + sum_list xs"
  by (induction xs) auto

lemma sum_list_sort: "sum_list (sort xs) = sum_list (xs :: rat list)"
  by (induction xs) (simp_all add: sum_list_insort)

lemma avg_query:
  "mysql_query sch d sql_avg_cost None =
     Inr \<lparr>columns = [''avg_cost''], rows = [[sql_avg (map service_cost (StudentServices d))]]\<rparr>"
  by (simp add: mysql_query_def sql_defs)

lemma count_students_query:
  "mysql_query sch d sql_count_students None =
     Inr \<lparr>columns = [''count''], rows = [[IntV (int (length (Students d)))]]\<rparr>"
  by (simp add: mysql_query_def sql_defs)

lemma count_services_query:
  "mysql_query sch d sql_count_services None =
     Inr \<lparr>columns = [''count''], rows = [[IntV (int (length (StudentServices d)))]]\<rparr>"
  by (simp add: mysql_query_def sql_defs)

lemma avg_cost_of_cell:
  "avg_cost_of lib \<lparr>columns = [''avg_cost''], rows = [[v]]\<rparr> =
     (if truthy v then py_round2 lib v else Inr (PyFloat 0))"
  by (simp add: avg_cost_of_def df_empty_def iloc0_def)


lemma avg_cost_ok:
  assumes "fetch_ok f"
  shows "avg_cost sch lib f w =
    (let v = sql_avg (map service_cost (StudentServices (store w)))
     in if truthy v then py_round2 lib v else Inr (PyFloat 0),
     w\<lparr>executed := executed w @ [(sql_avg_cost, None)]\<rparr>)"
  using assms by (simp add: fetch_ok_def avg_cost_def fd_succeeds avg_query avg_cost_of_cell)


lemma total_count_ok:
  assumes "fetch_ok f" "mysql_query sch (store w) query None =
     Inr \<lparr>columns = [''count''], rows = [[v]]\<rparr>"
  shows "total_count sch f query w = (Inr v, w\<lparr>executed := executed w @ [(query, None)]\<rparr>)"
  using assms by (simp add: fetch_ok_def total_count_def fd_succeeds iloc0_def)


lemma metrics_counts_ok:
  assumes "fetch_ok f1" "fetch_ok f2"
  shows "fst (tab_dash_metrics sch lib other f1 f2 f3 w) =
    (case fst (avg_cost sch lib f3
            (w\<lparr>executed := executed w @ [(sql_count_students, None), (sql_count_services, None)]\<rparr>)) of
       Inl e \<Rightarrow> Inl e
     | Inr avg \<Rightarrow>
         Inr (IntV (int (length (Students (store w)))),
              IntV (int (length (StudentServices (store w)))),
              ''$'' @ pynum_str other avg))"
proof -
  have c1: "total_count sch f1 sql_count_students w =
    (Inr (IntV (int (length (Students (store w))))),
     w\<lparr>executed := executed w @ [(sql_count_students, None)]\<rparr>)"
    using assms(1) by (intro total_count_ok) (simp_all add: count_students_query)
  have c2: "total_count sch f2 sql_count_services
       (w\<lparr>executed := executed w @ [(sql_count_students, None)]\<rparr>) =
    (Inr (IntV (int (length (StudentServices (store w))))),
     w\<lparr>executed := executed w @ [(sql_count_students, None), (sql_count_services, None)]\<rparr>)"
    using total_count_ok [OF assms(2), of sch
        "w\<lparr>executed := executed w @ [(sql_count_students, None)]\<rparr>" sql_count_services
        "IntV (int (length (StudentServices (store w))))"]
    by (simp add: count_services_query)
  show ?thesis
    by (cases "avg_cost sch lib f3
            (w\<lparr>executed := executed w @ [(sql_count_students, None), (sql_count_services, None)]\<rparr>)")
       (auto simp: tab_dash_metrics_def c1 c2 split: sum.splits)
qed


lemma py_round2_20: "py_round2 lib (NumV 20) = Inr (PyFloat 20)"
  by (simp add: td20 round2_20)

lemma avg_sorted:
  assumes "sort (map service_cost (StudentServices d)) = [10, 20, 30]"
  shows "sql_avg (map service_cost (StudentServices d)) = NumV 20"
proof -
  let ?cs = "map service_cost (StudentServices d)"
  have "sum_list (sort ?cs) = 60" "length (sort ?cs) = 3" using assms by simp_all
  then have "sum_list ?cs = 60" "length ?cs = 3" by (simp_all add: sum_list_sort)
  then show ?thesis by (auto simp: sql_avg_def)
qed

lemma avg_cost_general:
  assumes "fetch_ok f" "StudentServices (store w) \<noteq> []"
    and "sum_list (map service_cost (StudentServices (store w))) \<noteq> 0"
  shows "fst (avg_cost sch lib f w) =
    py_round2 lib (NumV (sum_list (map service_cost (StudentServices (store w))) /
                         of_nat (length (StudentServices (store w)))))"
  using assms by (simp add: avg_cost_ok sql_avg_def Let_def)

text \<open>
  C8 (as amended). With working fetches and assignments that cost 10.00, 20.00 and 30.00,
  in any order, the value of the average-cost metric is the float 20.0 and the third card
  shows \<open>$20.0\<close>. The value is the mean rounded to two decimals as a float: for every
  store with assignments whose costs do not sum to zero it is the float nearest to
  \<open>k / 100\<close> (or \<open>-0.0\<close>), for an integer \<open>k\<close> within one half of hundred times the
  mean as the rounding library computes it.
\<close>

theorem avg_cost_metric_rounded:
  assumes "fetch_ok f1" "fetch_ok f2" "fetch_ok f3"
  shows
   "(sort (map service_cost (StudentServices (store w))) = [10, 20, 30] \<longrightarrow>
       fst (avg_cost sch lib f3 w) = Inr (PyFloat 20) \<and>
       fst (tab_dash_metrics sch lib other f1 f2 f3 w) =
         Inr (IntV (int (length (Students (store w)))), IntV 3, ''$20.0'')) \<and>
    (StudentServices (store w) \<noteq> [] \<and>
     sum_list (map service_cost (StudentServices (store w))) \<noteq> 0 \<longrightarrow>
       (\<exists>k. \<bar>of_int k -
                scaled lib (to_double
                  (sum_list (map service_cost (StudentServices (store w))) /
                   of_nat (length (StudentServices (store w)))))\<bar> \<le> 1 / 2 \<and>
            fst (avg_cost sch lib f3 w) =
              Inr (if to_double (of_int k / 100) = 0 \<and>
                      sum_list (map service_cost (StudentServices (store w))) /
                        of_nat (length (StudentServices (store w))) < 0
                   then PyNegZero else PyFloat (to_double (of_int k / 100)))))"
proof (intro conjI impI)
  assume s: "sort (map service_cost (StudentServices (store w))) = [10, 20, 30]"
  have a: "\<And>w'. store w' = store w \<Longrightarrow> fst (avg_cost sch lib f3 w') = Inr (PyFloat 20)"
    using assms(3) s by (simp add: avg_cost_ok avg_sorted td20 round2_20)
  from a show "fst (avg_cost sch lib f3 w) = Inr (PyFloat 20)" by simp
  have "length (sort (map service_cost (StudentServices (store w)))) = 3" using s by simp
  then have n: "length (StudentServices (store w)) = 3" by simp
  show "fst (tab_dash_metrics sch lib other f1 f2 f3 w) =
         Inr (IntV (int (length (Students (store w)))), IntV 3, ''$20.0'')"
    using a n by (simp add: metrics_counts_ok [OF assms(1,2)] fs20)
next
  assume "StudentServices (store w) \<noteq> [] \<and>
     sum_list (map service_cost (StudentServices (store w))) \<noteq> 0"
  then have g: "fst (avg_cost sch lib f3 w) =
    py_round2 lib (NumV (sum_list (map service_cost (StudentServices (store w))) /
                         of_nat (length (StudentServices (store w)))))"
    using assms(3) by (intro avg_cost_general) simp_all
  let ?m = "sum_list (map service_cost (StudentServices (store w))) /
              of_nat (length (StudentServices (store w)))"
  from round2_hundredth [of lib "to_double ?m"] obtain k
    where k: "\<bar>of_int k - scaled lib (to_double ?m)\<bar> \<le> 1 / 2"
      and r: "round2 lib (to_double ?m) = to_double (of_int k / 100)"
    by blast
  have "fst (avg_cost sch lib f3 w) =
          Inr (if to_double (of_int k / 100) = 0 \<and> ?m < 0
               then PyNegZero else PyFloat (to_double (of_int k / 100)))"
    using g r by simp
  with k show "\<exists>k. \<bar>of_int k - scaled lib (to_double ?m)\<bar> \<le> 1 / 2 \<and>
            fst (avg_cost sch lib f3 w) =
              Inr (if to_double (of_int k / 100) = 0 \<and> ?m < 0
                   then PyNegZero else PyFloat (to_double (of_int k / 100)))"
    by blast
qed

lemma fetch_ok_no_faults: "fetch_ok no_faults"
  by (simp add: fetch_ok_def no_faults_def)

lemma shuffled_costs:
  "sort (map service_cost (StudentServices (store (world0 shuffled_db)))) = [10, 20, 30]"
  "length (Students (store (world0 shuffled_db))) = 1"
  by (simp_all add: world0_def shuffled_db_def three_db_def assignment_def)

lemma thirds_costs:
  "StudentServices (store (world0 thirds_db)) \<noteq> []"
  "sum_list (map service_cost (StudentServices (store (world0 thirds_db)))) = 5"
  "length (StudentServices (store (world0 thirds_db))) = 3"
  by (simp_all add: world0_def thirds_db_def three_db_def assignment_def)

theorem avg_cost_metric_rounded_witness:
  "sort (map service_cost (StudentServices (store (world0 shuffled_db)))) = [10, 20, 30] \<and>
   fst (tab_dash_metrics example_schema NumPy no_text no_faults no_faults no_faults
          (world0 shuffled_db)) = Inr (IntV 1, IntV 3, ''$20.0'') \<and>
   (\<exists>k. \<bar>rat_of_int k - scaled CPython (to_double (5 / 3))\<bar> \<le> 1 / 2 \<and>
        fst (avg_cost example_schema CPython no_faults (world0 thirds_db)) =
          Inr (PyFloat (to_double (of_int k / 100)))) \<and>
   fst (avg_cost example_schema CPython no_faults (world0 thirds_db)) =
     Inr (PyFloat (940126422213591 / 562949953421312)) \<and>
   ''$'' @ pynum_str no_text (PyFloat (940126422213591 / 562949953421312)) = ''$1.67''"
proof -
  note t1 = avg_cost_metric_rounded [OF fetch_ok_no_faults fetch_ok_no_faults fetch_ok_no_faults,
      of "world0 shuffled_db" example_schema NumPy no_text]
  note t2 = avg_cost_metric_rounded [OF fetch_ok_no_faults fetch_ok_no_faults fetch_ok_no_faults,
      of "world0 thirds_db" example_schema CPython no_text]
  from t1 have a: "fst (tab_dash_metrics example_schema NumPy no_text no_faults no_faults no_faults
          (world0 shuffled_db)) = Inr (IntV 1, IntV 3, ''$20.0'')"
    by (simp add: shuffled_costs)
  have v: "fst (avg_cost example_schema CPython no_faults (world0 thirds_db)) =
     Inr (PyFloat (940126422213591 / 562949953421312))"
    by (simp add: avg_cost_general fetch_ok_no_faults thirds_costs td53 round2_53)
  from t2 have b: "\<exists>k. \<bar>rat_of_int k - scaled CPython (to_double (5 / 3))\<bar> \<le> 1 / 2 \<and>
        fst (avg_cost example_schema CPython no_faults (world0 thirds_db)) =
          Inr (if to_double (of_int k / 100) = 0 \<and> (5 / 3 :: rat) < 0
               then PyNegZero else PyFloat (to_double (of_int k / 100)))"
    by (simp add: thirds_costs)
  then have c: "\<exists>k. \<bar>rat_of_int k - scaled CPython (to_double (5 / 3))\<bar> \<le> 1 / 2 \<and>
        fst (avg_cost example_schema CPython no_faults (world0 thirds_db)) =
          Inr (PyFloat (to_double (of_int k / 100)))"
    by simp
  from a c v show ?thesis by (simp add: shuffled_costs fs167)
qed

text \<open>
  C8 as stated fails on what the card shows: for the three costs the text is
  \<open>$20.0\<close>, the float with one decimal, not \<open>20.00\<close>.
\<close>

theorem avg_cost_metric_text:
  "sort (map service_cost (StudentServices (store (world0 three_db)))) = [10, 20, 30] \<and>
   fst (tab_dash_metrics example_schema CPython no_text no_faults no_faults no_faults
          (world0 three_db)) = Inr (IntV 1, IntV 3, ''$20.0'') \<and>
   fst (tab_dash_metrics example_schema NumPy no_text no_faults no_faults no_faults
          (world0 three_db)) = Inr (IntV 1, IntV 3, ''$20.0'') \<and>
   ''$20.0'' \<noteq> ''$20.00''"
proof -
  have s: "sort (map service_cost (StudentServices (store (world0 three_db)))) = [10, 20, 30]"
    "length (Students (store (world0 three_db))) = 1"
    "length (StudentServices (store (world0 three_db))) = 3"
    by (simp_all add: world0_def three_db_def assignment_def)
  have a: "\<And>lib w'. store w' = store (world0 three_db) \<Longrightarrow>
      fst (avg_cost example_schema lib no_faults w') = Inr (PyFloat 20)"
    using s(1) by (simp add: avg_cost_ok fetch_ok_no_faults avg_sorted td20 round2_20)
  have "\<And>lib. fst (tab_dash_metrics example_schema lib no_text no_faults no_faults no_faults
          (world0 three_db)) = Inr (IntV 1, IntV 3, ''$20.0'')"
    using a s by (simp add: metrics_counts_ok [OF fetch_ok_no_faults fetch_ok_no_faults] fs20)
  with s show ?thesis by simp
qed






section \<open>The Add Student form\<close>

lemma run_query_executed:
  assumes "connect_fault f = None" "cursor_fault f = None" "execute_fault f = None"
  shows "executed (snd (run_query eng f q ps w)) = executed w @ [(q, ps)]"
proof (cases rule: first_error_cases [of f eng q ps w])
  case (connect e)
  then show ?thesis using assms by simp
next
  case (cursor e)
  then show ?thesis using assms by simp
next
  case (execute e)
  then show ?thesis using assms by simp
next
  case (statement e)
  then show ?thesis using rq_statement_fails [of f eng w q ps e]
    by (cases e) (simp_all add: st_error_def)
next
  case (commit e d n)
  then show ?thesis using rq_commit_fails [of f eng w q ps d n e]
    by (cases e) (simp_all add: st_error_def)
next
  case (ok d n)
  then show ?thesis using rq_succeeds [of f eng w q ps d n] by (simp add: st_toast_def)
qed

lemma add_student_form_missing:
  assumes "s_id = [] \<or> f_name = []"
  shows "add_student_form sch f s_id f_name l_name email_in w =
           (None, w\<lparr>ui := ui w @ [Warning ''Missing details.'']\<rparr>)"
  using assms by (auto simp: add_student_form_def st_warning_def)

lemma add_student_form_executed:
  assumes "s_id \<noteq> []" "f_name \<noteq> []"
    and "connect_fault f = None" "cursor_fault f = None" "execute_fault f = None"
  shows "executed (snd (add_student_form sch f s_id f_name l_name email_in w)) =
           executed w @
             [(sql_insert_student, Some [StrV s_id, StrV f_name, StrV l_name, StrV email_in])]"
proof -
  let ?r = "run_query (mysql_execute sch) f sql_insert_student
              (Some [StrV s_id, StrV f_name, StrV l_name, StrV email_in]) w"
  have e: "executed (snd ?r) = executed w @
             [(sql_insert_student, Some [StrV s_id, StrV f_name, StrV l_name, StrV email_in])]"
    using assms(3-5) by (rule run_query_executed)
  obtain r w1 where rw: "?r = (r, w1)" by (cases ?r)
  with e have "executed w1 = executed w @
             [(sql_insert_student, Some [StrV s_id, StrV f_name, StrV l_name, StrV email_in])]"
    by simp
  with rw assms(1,2) show ?thesis
    by (cases r) (simp_all add: add_student_form_def st_rerun_def)
qed

text \<open>
  C10. When the Student ID or the First Name is empty, the Add Student form shows the
  warning and does nothing else: the store, the connections and the statements run by
  the server are as before. When both are non-empty (whatever the last name and the
  email, empty or not) and the driver gets as far as the server, the statement run is the
  INSERT with the four fields. So a statement is run only when both are non-empty.
\<close>

theorem add_student_form_guard:
  "(s_id = [] \<or> f_name = [] \<longrightarrow>
      add_student_form sch f s_id f_name l_name email_in w =
        (None, w\<lparr>ui := ui w @ [Warning ''Missing details.'']\<rparr>)) \<and>
   (s_id \<noteq> [] \<and> f_name \<noteq> [] \<and>
    connect_fault f = None \<and> cursor_fault f = None \<and> execute_fault f = None \<longrightarrow>
      executed (snd (add_student_form sch f s_id f_name l_name email_in w)) =
        executed w @
          [(sql_insert_student, Some [StrV s_id, StrV f_name, StrV l_name, StrV email_in])]) \<and>
   (executed (snd (add_student_form sch f s_id f_name l_name email_in w)) \<noteq> executed w \<longrightarrow>
      s_id \<noteq> [] \<and> f_name \<noteq> [])"
proof (intro conjI impI)
  assume "s_id = [] \<or> f_name = []"
  then show "add_student_form sch f s_id f_name l_name email_in w =
        (None, w\<lparr>ui := ui w @ [Warning ''Missing details.'']\<rparr>)"
    by (rule add_student_form_missing)
next
  assume "s_id \<noteq> [] \<and> f_name \<noteq> [] \<and>
    connect_fault f = None \<and> cursor_fault f = None \<and> execute_fault f = None"
  then show "executed (snd (add_student_form sch f s_id f_name l_name email_in w)) =
        executed w @
          [(sql_insert_student, Some [StrV s_id, StrV f_name, StrV l_name, StrV email_in])]"
    by (simp add: add_student_form_executed)
next
  assume a: "executed (snd (add_student_form sch f s_id f_name l_name email_in w)) \<noteq> executed w"
  show "s_id \<noteq> []"
  proof
    assume "s_id = []"
    then have "add_student_form sch f s_id f_name l_name email_in w =
        (None, w\<lparr>ui := ui w @ [Warning ''Missing details.'']\<rparr>)"
      by (intro add_student_form_missing) simp
    with a show False by simp
  qed
  show "f_name \<noteq> []"
  proof
    assume "f_name = []"
    then have "add_student_form sch f s_id f_name l_name email_in w =
        (None, w\<lparr>ui := ui w @ [Warning ''Missing details.'']\<rparr>)"
      by (intro add_student_form_missing) simp
    with a show False by simp
  qed
qed

lemma insert_student_fresh:
  assumes "sid \<notin> set (map student_id (Students d))"
  shows "mysql_execute sch d sql_insert_student (Some [StrV sid, StrV a, StrV b, StrV c]) =
    Inr (d\<lparr>Students := Students d @
           [\<lparr>student_id = sid, first_name = a, last_name = b, email = c\<rparr>]\<rparr>, 1)"
  using assms by (simp add: mysql_execute_def insert_student_def)

theorem add_student_form_guard_witness:
  "add_student_form example_schema no_faults ''S104'' [] ''Lovelace'' ''ada@example.com''
     (world0 empty_db) =
     (None, \<lparr>store = empty_db, open_conns = 0, open_cursors = 0, executed = [],
             ui = [Warning ''Missing details.'']\<rparr>) \<and>
   add_student_form example_schema no_faults [] ''Ada'' ''Lovelace'' ''ada@example.com''
     (world0 empty_db) =
     (None, \<lparr>store = empty_db, open_conns = 0, open_cursors = 0, executed = [],
             ui = [Warning ''Missing details.'']\<rparr>) \<and>
   executed (snd (add_student_form example_schema no_faults ''S104'' ''Ada'' [] []
     (world0 empty_db))) =
     [(sql_insert_student, Some [StrV ''S104'', StrV ''Ada'', StrV [], StrV []])]"
  using add_student_form_guard [of "''S104''" "[]" example_schema no_faults "''Lovelace''"
      "''ada@example.com''" "world0 empty_db"]
    add_student_form_guard [of "[]" "''Ada''" example_schema no_faults "''Lovelace''"
      "''ada@example.com''" "world0 empty_db"]
    add_student_form_guard [of "''S104''" "''Ada''" example_schema no_faults "[]" "[]"
      "world0 empty_db"]
  by (simp add: no_faults_def world0_def)


section \<open>The Delete button\<close>

lemma delete_query:
  "mysql_execute sch d sql_delete_student (Some [StrV sid]) = delete_student sch d sid"
  by (simp add: mysql_execute_def sql_defs)

lemma filter_absent:
  assumes "sid \<notin> set (map student_id xs)"
  shows "filter (\<lambda>r. student_id r \<noteq> sid) xs = xs \<and> filter (\<lambda>r. student_id r = sid) xs = []"
  using assms by (induction xs) auto

lemma delete_student_absent:
  assumes "sid \<notin> set (map student_id (Students d))"
  shows "delete_student sch d sid = Inr (d, 0)"
  using filter_absent [OF assms] by (simp add: delete_student_def)

lemma delete_student_present:
  assumes "on_delete_student sch = Cascade \<or> sid \<notin> set (map ss_student_id (StudentServices d))"
  shows "\<exists>d' n. delete_student sch d sid = Inr (d', n) \<and>
           Students d' = filter (\<lambda>r. student_id r \<noteq> sid) (Students d) \<and>
           n = length (filter (\<lambda>r. student_id r = sid) (Students d)) \<and>
           Services d' = Services d"
  using assms by (auto simp: delete_student_def Let_def)

lemma button_ok:
  assumes "driver_ok f" "del_id \<noteq> []"
    and "mysql_execute sch (store w) sql_delete_student (Some [StrV del_id]) = Inr (d, n)"
  shows "delete_student_button sch f del_id w =
    (None, w\<lparr>store := d,
             executed := executed w @ [(sql_delete_student, Some [StrV del_id])],
             ui := ui w @ [Toast ''Operation successful!'', Rerun]\<rparr>)"
  using assms rq_succeeds [of f "mysql_execute sch" w sql_delete_student "Some [StrV del_id]" d n]
  by (simp add: delete_student_button_def driver_ok_def st_toast_def st_rerun_def)

lemma delete_twice:
  assumes "driver_ok f" "driver_ok f'" "del_id \<noteq> []"
    and "on_delete_student sch = Cascade \<or>
         del_id \<notin> set (map ss_student_id (StudentServices (store w)))"
  defines "w1 \<equiv> snd (delete_student_button sch f del_id w)"
  defines "w2 \<equiv> snd (delete_student_button sch f' del_id w1)"
  shows "fst (delete_student_button sch f del_id w) = None \<and>
         Students (store w1) = filter (\<lambda>r. student_id r \<noteq> del_id) (Students (store w)) \<and>
         del_id \<notin> set (map student_id (Students (store w1))) \<and>
         ui w1 = ui w @ [Toast ''Operation successful!'', Rerun] \<and>
         mysql_execute sch (store w1) sql_delete_student (Some [StrV del_id]) =
           Inr (store w1, 0) \<and>
         fst (delete_student_button sch f' del_id w1) = None \<and>
         store w2 = store w1 \<and>
         ui w2 = ui w1 @ [Toast ''Operation successful!'', Rerun]"
proof -
  from delete_student_present [OF assms(4)] obtain d n
    where d: "delete_student sch (store w) del_id = Inr (d, n)"
      and s: "Students d = filter (\<lambda>r. student_id r \<noteq> del_id) (Students (store w))"
    by blast
  have b1: "delete_student_button sch f del_id w =
    (None, w\<lparr>store := d,
             executed := executed w @ [(sql_delete_student, Some [StrV del_id])],
             ui := ui w @ [Toast ''Operation successful!'', Rerun]\<rparr>)"
    using assms(1,3) d by (intro button_ok) (simp_all add: delete_query)
  then have w1: "store w1 = d" "ui w1 = ui w @ [Toast ''Operation successful!'', Rerun]"
    by (simp_all add: w1_def)
  have absent: "del_id \<notin> set (map student_id (Students (store w1)))"
    by (auto simp: w1 s)
  then have e2: "mysql_execute sch (store w1) sql_delete_student (Some [StrV del_id]) =
           Inr (store w1, 0)"
    by (simp add: delete_query delete_student_absent)
  have b2: "delete_student_button sch f' del_id w1 =
    (None, w1\<lparr>store := store w1,
             executed := executed w1 @ [(sql_delete_student, Some [StrV del_id])],
             ui := ui w1 @ [Toast ''Operation successful!'', Rerun]\<rparr>)"
    using assms(2,3) e2 by (intro button_ok)
  from b1 b2 w1 s absent e2 show ?thesis by (simp add: w2_def)
qed

lemma delete_absent:
  assumes "driver_ok f" "del_id \<noteq> []"
    and "del_id \<notin> set (map student_id (Students (store w)))"
  shows "mysql_execute sch (store w) sql_delete_student (Some [StrV del_id]) = Inr (store w, 0) \<and>
         delete_student_button sch f del_id w =
           (None, w\<lparr>executed := executed w @ [(sql_delete_student, Some [StrV del_id])],
                    ui := ui w @ [Toast ''Operation successful!'', Rerun]\<rparr>)"
proof -
  have e: "mysql_execute sch (store w) sql_delete_student (Some [StrV del_id]) = Inr (store w, 0)"
    using assms(3) by (simp add: delete_query delete_student_absent)
  have "delete_student_button sch f del_id w =
    (None, w\<lparr>store := store w,
             executed := executed w @ [(sql_delete_student, Some [StrV del_id])],
             ui := ui w @ [Toast ''Operation successful!'', Rerun]\<rparr>)"
    using assms(1,2) e by (intro button_ok)
  with e show ?thesis by simp
qed

lemma ok_no_faults: "driver_ok no_faults"
  by (simp add: driver_ok_def no_faults_def)

lemma button_refused:
  assumes "driver_ok f" "del_id \<noteq> []"
    and "mysql_execute sch (store w) sql_delete_student (Some [StrV del_id]) = Inl (DbError m)"
  shows "delete_student_button sch f del_id w =
    (None, w\<lparr>executed := executed w @ [(sql_delete_student, Some [StrV del_id])],
             ui := ui w @ [ErrorBox (''Error: '' @ m), Rerun]\<rparr>)"
  using assms
    rq_statement_fails [of f "mysql_execute sch" w sql_delete_student "Some [StrV del_id]"
      "DbError m"]
  by (simp add: delete_student_button_def driver_ok_def st_error_def st_rerun_def)

lemma filter_present:
  assumes "sid \<in> set (map student_id xs)"
  shows "0 < length (filter (\<lambda>r. student_id r = sid) xs)"
  using assms by (induction xs) auto

lemma delete_student_referenced:
  assumes "on_delete_student sch = Restrict"
    and "sid \<in> set (map student_id (Students d))"
    and "sid \<in> set (map ss_student_id (StudentServices d))"
  shows "delete_student sch d sid =
           Inl (DbError ''1451 (23000): Cannot delete or update a parent row'')"
  using assms filter_present [OF assms(2)] by (simp add: delete_student_def Let_def)

lemma delete_referenced:
  assumes "driver_ok f" "del_id \<noteq> []" "on_delete_student sch = Restrict"
    and "del_id \<in> set (map student_id (Students (store w)))"
    and "del_id \<in> set (map ss_student_id (StudentServices (store w)))"
  shows "delete_student_button sch f del_id w =
    (None, w\<lparr>executed := executed w @ [(sql_delete_student, Some [StrV del_id])],
             ui := ui w @
               [ErrorBox ''Error: 1451 (23000): Cannot delete or update a parent row'',
                Rerun]\<rparr>)"
proof -
  have "mysql_execute sch (store w) sql_delete_student (Some [StrV del_id]) =
          Inl (DbError ''1451 (23000): Cannot delete or update a parent row'')"
    using assms(3-5) by (simp add: delete_query delete_student_referenced)
  from button_refused [OF assms(1,2) this] show ?thesis by simp
qed

text \<open>
  C5 (as amended). With a working driver and a non-empty identifier: when the student may
  be deleted (no assignment refers to it, or the schema cascades), the first press of
  Delete removes the rows with that identifier and shows the success toast; the server
  then answers the same DELETE with zero rows affected and an unchanged store, and the
  second press shows the success toast again, raises nothing and leaves the store as the
  first left it. Likewise, deleting an identifier that no student has affects zero rows,
  leaves the store unchanged and shows the success toast. A student that an assignment
  refers to, under a foreign key that restricts, is not deleted: the press shows the
  store's error 1451 and the store is as before.
\<close>

theorem delete_student_twice:
  assumes "driver_ok f" "driver_ok f'" "del_id \<noteq> []"
  shows
   "(on_delete_student sch = Cascade \<or>
     del_id \<notin> set (map ss_student_id (StudentServices (store w))) \<longrightarrow>
       fst (delete_student_button sch f del_id w) = None \<and>
       Students (store (snd (delete_student_button sch f del_id w))) =
         filter (\<lambda>r. student_id r \<noteq> del_id) (Students (store w)) \<and>
       ui (snd (delete_student_button sch f del_id w)) =
         ui w @ [Toast ''Operation successful!'', Rerun] \<and>
       mysql_execute sch (store (snd (delete_student_button sch f del_id w)))
         sql_delete_student (Some [StrV del_id]) =
         Inr (store (snd (delete_student_button sch f del_id w)), 0) \<and>
       fst (delete_student_button sch f' del_id (snd (delete_student_button sch f del_id w))) =
         None \<and>
       store (snd (delete_student_button sch f' del_id
                     (snd (delete_student_button sch f del_id w)))) =
         store (snd (delete_student_button sch f del_id w)) \<and>
       ui (snd (delete_student_button sch f' del_id
                  (snd (delete_student_button sch f del_id w)))) =
         ui (snd (delete_student_button sch f del_id w)) @
           [Toast ''Operation successful!'', Rerun]) \<and>
    (del_id \<notin> set (map student_id (Students (store w))) \<longrightarrow>
       mysql_execute sch (store w) sql_delete_student (Some [StrV del_id]) =
         Inr (store w, 0) \<and>
       delete_student_button sch f del_id w =
         (None, w\<lparr>executed := executed w @ [(sql_delete_student, Some [StrV del_id])],
                  ui := ui w @ [Toast ''Operation successful!'', Rerun]\<rparr>)) \<and>
    (on_delete_student sch = Restrict \<and>
     del_id \<in> set (map student_id (Students (store w))) \<and>
     del_id \<in> set (map ss_student_id (StudentServices (store w))) \<longrightarrow>
       delete_student_button sch f del_id w =
         (None, w\<lparr>executed := executed w @ [(sql_delete_student, Some [StrV del_id])],
                  ui := ui w @
                    [ErrorBox ''Error: 1451 (23000): Cannot delete or update a parent row'',
                     Rerun]\<rparr>))"
proof (intro conjI impI)
  assume a: "on_delete_student sch = Cascade \<or>
     del_id \<notin> set (map ss_student_id (StudentServices (store w)))"
  note t = delete_twice [OF assms a]
  from t show "fst (delete_student_button sch f del_id w) = None" by simp
  from t show "Students (store (snd (delete_student_button sch f del_id w))) =
         filter (\<lambda>r. student_id r \<noteq> del_id) (Students (store w))" by simp
  from t show "ui (snd (delete_student_button sch f del_id w)) =
         ui w @ [Toast ''Operation successful!'', Rerun]" by simp
  from t show "mysql_execute sch (store (snd (delete_student_button sch f del_id w)))
         sql_delete_student (Some [StrV del_id]) =
         Inr (store (snd (delete_student_button sch f del_id w)), 0)" by simp
  from t show "fst (delete_student_button sch f' del_id
         (snd (delete_student_button sch f del_id w))) = None" by simp
  from t show "store (snd (delete_student_button sch f' del_id
                     (snd (delete_student_button sch f del_id w)))) =
         store (snd (delete_student_button sch f del_id w))" by simp
  from t show "ui (snd (delete_student_button sch f' del_id
                  (snd (delete_student_button sch f del_id w)))) =
         ui (snd (delete_student_button sch f del_id w)) @
           [Toast ''Operation successful!'', Rerun]" by simp
next
  assume b: "del_id \<notin> set (map student_id (Students (store w)))"
  note t = delete_absent [OF assms(1,3) b]
  from t show "mysql_execute sch (store w) sql_delete_student (Some [StrV del_id]) =
         Inr (store w, 0)" by simp
  from t show "delete_student_button sch f del_id w =
         (None, w\<lparr>executed := executed w @ [(sql_delete_student, Some [StrV del_id])],
                  ui := ui w @ [Toast ''Operation successful!'', Rerun]\<rparr>)" by simp
next
  assume c: "on_delete_student sch = Restrict \<and>
     del_id \<in> set (map student_id (Students (store w))) \<and>
     del_id \<in> set (map ss_student_id (StudentServices (store w)))"
  with delete_referenced [OF assms(1,3), of sch w]
  show "delete_student_button sch f del_id w =
         (None, w\<lparr>executed := executed w @ [(sql_delete_student, Some [StrV del_id])],
                  ui := ui w @
                    [ErrorBox ''Error: 1451 (23000): Cannot delete or update a parent row'',
                     Rerun]\<rparr>)" by simp
qed

theorem delete_student_twice_witness:
  "store (snd (delete_student_button example_schema no_faults ''S104'' (world0 ada_db))) =
     empty_db \<and>
   ui (snd (delete_student_button example_schema no_faults ''S104'' (world0 ada_db))) =
     [Toast ''Operation successful!'', Rerun] \<and>
   mysql_execute example_schema empty_db sql_delete_student (Some [StrV ''S104'']) =
     Inr (empty_db, 0) \<and>
   delete_student_button example_schema no_faults ''S104''
     (snd (delete_student_button example_schema no_faults ''S104'' (world0 ada_db))) =
     (None, \<lparr>store = empty_db, open_conns = 0, open_cursors = 0,
             executed = [(sql_delete_student, Some [StrV ''S104'']),
                         (sql_delete_student, Some [StrV ''S104''])],
             ui = [Toast ''Operation successful!'', Rerun,
                   Toast ''Operation successful!'', Rerun]\<rparr>) \<and>
   delete_student_button example_schema no_faults ''S999'' (world0 ada_db) =
     (None, \<lparr>store = ada_db, open_conns = 0, open_cursors = 0,
             executed = [(sql_delete_student, Some [StrV ''S999''])],
             ui = [Toast ''Operation successful!'', Rerun]\<rparr>)"
proof -
  have a: "''S104'' \<noteq> ([] :: string)" "''S999'' \<noteq> ([] :: string)" by simp_all
  have r: "''S104'' \<notin> set (map ss_student_id (StudentServices (store (world0 ada_db))))"
    by (simp add: world0_def ada_db_def empty_db_def)
  have n: "''S999'' \<notin> set (map student_id (Students (store (world0 ada_db))))"
    by (simp add: world0_def ada_db_def empty_db_def ada_def)
  have b1: "delete_student_button example_schema no_faults ''S104'' (world0 ada_db) =
     (None, \<lparr>store = empty_db, open_conns = 0, open_cursors = 0,
             executed = [(sql_delete_student, Some [StrV ''S104''])],
             ui = [Toast ''Operation successful!'', Rerun]\<rparr>)"
    using ok_no_faults
    by (intro button_ok [THEN trans])
       (simp_all add: delete_query delete_student_def world0_def ada_db_def empty_db_def ada_def
          example_schema_def)
  note t1 = delete_student_twice [OF ok_no_faults ok_no_faults a(1),
      of example_schema "world0 ada_db"]
  note t2 = delete_student_twice [OF ok_no_faults ok_no_faults a(2),
      of example_schema "world0 ada_db"]
  from t1 r b1 have c1: "mysql_execute example_schema empty_db sql_delete_student
       (Some [StrV ''S104'']) = Inr (empty_db, 0)"
    and c2: "fst (delete_student_button example_schema no_faults ''S104''
       (snd (delete_student_button example_schema no_faults ''S104'' (world0 ada_db)))) = None"
    by simp_all
  have b2: "delete_student_button example_schema no_faults ''S104''
     \<lparr>store = empty_db, open_conns = 0, open_cursors = 0,
             executed = [(sql_delete_student, Some [StrV ''S104''])],
             ui = [Toast ''Operation successful!'', Rerun]\<rparr> =
     (None, \<lparr>store = empty_db, open_conns = 0, open_cursors = 0,
             executed = [(sql_delete_student, Some [StrV ''S104'']),
                         (sql_delete_student, Some [StrV ''S104''])],
             ui = [Toast ''Operation successful!'', Rerun,
                   Toast ''Operation successful!'', Rerun]\<rparr>)"
    using ok_no_faults c1 by (intro button_ok [THEN trans]) simp_all
  from t2 n have b3: "delete_student_button example_schema no_faults ''S999'' (world0 ada_db) =
     (None, \<lparr>store = ada_db, open_conns = 0, open_cursors = 0,
             executed = [(sql_delete_student, Some [StrV ''S999''])],
             ui = [Toast ''Operation successful!'', Rerun]\<rparr>)"
    by (simp add: world0_def)
  from b1 b2 b3 c1 show ?thesis by simp
qed

text \<open>
  C5 as stated fails for a student that an assignment refers to: with the restricting
  foreign key, the first press of Delete for S104 shows error 1451 and the row stays.
\<close>

theorem delete_referenced_student_refused:
  "delete_student_button example_schema no_faults ''S104'' (world0 campus_db) =
     (None, \<lparr>store = campus_db, open_conns = 0, open_cursors = 0,
             executed = [(sql_delete_student, Some [StrV ''S104''])],
             ui = [ErrorBox ''Error: 1451 (23000): Cannot delete or update a parent row'',
                   Rerun]\<rparr>) \<and>
   ''S104'' \<in> set (map student_id (Students campus_db)) \<and>
   Students (store (snd (delete_student_button example_schema no_faults ''S104''
     (world0 campus_db)))) = Students campus_db"
proof -
  have a: "''S104'' \<noteq> ([] :: string)" by simp
  have r: "on_delete_student example_schema = Restrict" by (simp add: example_schema_def)
  have s: "''S104'' \<in> set (map student_id (Students (store (world0 campus_db))))"
    by (simp add: world0_def campus_db_def ada_def)
  have t: "''S104'' \<in> set (map ss_student_id (StudentServices (store (world0 campus_db))))"
    by (simp add: world0_def campus_db_def assignment_def)
  from delete_referenced [OF ok_no_faults a r s t] s show ?thesis
    by (simp add: world0_def)
qed


section \<open>The service history filter\<close>

lemma like_percent: "like eq ''%'' s"
  by (induction s) simp_all

lemma like_plain_prefix:
  assumes "plain t"
  shows "like eq (t @ ''%'') s = starts_with eq t s"
  using assms
proof (induction t arbitrary: s)
  case Nil
  then show ?case by (simp add: like_percent)
next
  case (Cons a t)
  then have a: "a \<noteq> CHR ''%''" "a \<noteq> CHR ''_''" "a \<noteq> CHR 0x5C" and t: "plain t"
    by (simp_all add: plain_def wildcard_def)
  show ?case
  proof (cases s)
    case Nil
    then show ?thesis using a by simp
  next
    case (Cons c cs)
    then show ?thesis using a Cons.IH [OF t, of cs] by simp
  qed
qed

lemma like_plain_contains:
  assumes "plain t"
  shows "like eq (CHR ''%'' # t @ ''%'') s = contains eq t s"
proof (induction s)
  case Nil
  have "like eq (CHR ''%'' # t @ ''%'') [] = like eq (t @ ''%'') []" by simp
  then show ?case by (simp add: like_plain_prefix [OF assms])
next
  case (Cons c cs)
  have "like eq (CHR ''%'' # t @ ''%'') (c # cs) =
          (like eq (t @ ''%'') (c # cs) \<or> like eq (CHR ''%'' # t @ ''%'') cs)"
    by simp
  then show ?case by (simp add: like_plain_prefix [OF assms] Cons.IH)
qed

lemma starts_with_eq: "starts_with (=) t s = (\<exists>post. s = t @ post)"
  by (induction "(=) :: char \<Rightarrow> char \<Rightarrow> bool" t s rule: starts_with.induct) auto

lemma contains_eq: "contains (=) t s = (\<exists>pre post. s = pre @ t @ post)"
proof (induction s)
  case Nil
  then show ?case by (auto simp: starts_with_eq)
next
  case (Cons c cs)
  show ?case
  proof
    assume "contains (=) t (c # cs)"
    then consider "starts_with (=) t (c # cs)" | "contains (=) t cs" by auto
    then show "\<exists>pre post. c # cs = pre @ t @ post"
    proof cases
      case 1
      then obtain post where "c # cs = t @ post" by (auto simp: starts_with_eq)
      then have "c # cs = [] @ t @ post" by simp
      then show ?thesis by blast
    next
      case 2
      then obtain pre post where "cs = pre @ t @ post" using Cons.IH by auto
      then have "c # cs = (c # pre) @ t @ post" by simp
      then show ?thesis by blast
    qed
  next
    assume "\<exists>pre post. c # cs = pre @ t @ post"
    then obtain pre post where p: "c # cs = pre @ t @ post" by blast
    show "contains (=) t (c # cs)"
    proof (cases pre)
      case Nil
      with p have "starts_with (=) t (c # cs)" by (auto simp: starts_with_eq)
      then show ?thesis by simp
    next
      case (Cons a pre')
      with p have "cs = pre' @ t @ post" by simp
      then have "contains (=) t cs" using Cons.IH by blast
      then show ?thesis by simp
    qed
  qed
qed

lemma history_like_query:
  "mysql_query sch d sql_history_like (Some [StrV p]) =
     Inr \<lparr>columns = history_columns,
          rows = map history_cells
            (filter (\<lambda>r. like (collation sch) p (student_name r)) (vw_student_services sch d))\<rparr>"
  by (simp add: mysql_query_def sql_defs)

lemma history_query:
  "mysql_query sch d sql_history None =
     Inr \<lparr>columns = history_columns, rows = map history_cells (vw_student_services sch d)\<rparr>"
  by (simp add: mysql_query_def sql_defs)

lemma df_history_like:
  assumes "connect_fault f = None" "read_fault f = None" "search_term \<noteq> []"
  shows "df_history sch f search_term w =
    (Inr \<lparr>columns = history_columns,
          rows = map history_cells
            (filter (\<lambda>r. like (collation sch) (''%'' @ search_term @ ''%'') (student_name r))
               (vw_student_services sch (store w)))\<rparr>,
     w\<lparr>executed := executed w @
          [(sql_history_like, Some [StrV (''%'' @ search_term @ ''%'')])]\<rparr>)"
  using assms by (simp add: df_history_def fd_succeeds history_like_query)

lemma df_history_all:
  assumes "connect_fault f = None" "read_fault f = None"
  shows "df_history sch f [] w =
    (Inr \<lparr>columns = history_columns,
          rows = map history_cells (vw_student_services sch (store w))\<rparr>,
     w\<lparr>executed := executed w @ [(sql_history, None)]\<rparr>)"
  using assms by (simp add: df_history_def fd_succeeds history_query)

text \<open>
  C6 (as amended). With a working fetch: for a non-empty search term the table under the
  search box holds exactly the rows of \<open>vw_student_services\<close> whose \<open>student_name\<close>
  matches the LIKE pattern made of \<open>%\<close>, the term and \<open>%\<close>, and the pattern travels as
  the one positional parameter of the statement; when the term has no \<open>%\<close>, no \<open>_\<close>
  and no backslash, these are exactly the rows whose name contains the term as a
  substring (characters compared under the collation); for the empty term the whole view
  is fetched with the unfiltered statement.
\<close>

theorem df_history_filter:
  assumes "connect_fault f = None" "read_fault f = None"
  shows
   "(search_term \<noteq> [] \<longrightarrow>
       df_history sch f search_term w =
         (Inr \<lparr>columns = history_columns,
               rows = map history_cells
                 (filter (\<lambda>r. like (collation sch) (''%'' @ search_term @ ''%'') (student_name r))
                    (vw_student_services sch (store w)))\<rparr>,
          w\<lparr>executed := executed w @
               [(sql_history_like, Some [StrV (''%'' @ search_term @ ''%'')])]\<rparr>)) \<and>
    (search_term \<noteq> [] \<and> plain search_term \<longrightarrow>
       fst (df_history sch f search_term w) =
         Inr \<lparr>columns = history_columns,
              rows = map history_cells
                (filter (\<lambda>r. contains (collation sch) search_term (student_name r))
                   (vw_student_services sch (store w)))\<rparr>) \<and>
    (search_term = [] \<longrightarrow>
       df_history sch f search_term w =
         (Inr \<lparr>columns = history_columns,
               rows = map history_cells (vw_student_services sch (store w))\<rparr>,
          w\<lparr>executed := executed w @ [(sql_history, None)]\<rparr>))"
proof (intro conjI impI)
  assume "search_term \<noteq> []"
  with assms show "df_history sch f search_term w =
         (Inr \<lparr>columns = history_columns,
               rows = map history_cells
                 (filter (\<lambda>r. like (collation sch) (''%'' @ search_term @ ''%'') (student_name r))
                    (vw_student_services sch (store w)))\<rparr>,
          w\<lparr>executed := executed w @
               [(sql_history_like, Some [StrV (''%'' @ search_term @ ''%'')])]\<rparr>)"
    by (rule df_history_like)
next
  assume a: "search_term \<noteq> [] \<and> plain search_term"
  then have "\<And>s. like (collation sch) (''%'' @ search_term @ ''%'') s =
                 contains (collation sch) search_term s"
    using like_plain_contains [of search_term "collation sch"] by simp
  with a assms show "fst (df_history sch f search_term w) =
         Inr \<lparr>columns = history_columns,
              rows = map history_cells
                (filter (\<lambda>r. contains (collation sch) search_term (student_name r))
                   (vw_student_services sch (store w)))\<rparr>"
    by (simp add: df_history_like)
next
  assume "search_term = []"
  with assms show "df_history sch f search_term w =
         (Inr \<lparr>columns = history_columns,
               rows = map history_cells (vw_student_services sch (store w))\<rparr>,
          w\<lparr>executed := executed w @ [(sql_history, None)]\<rparr>)"
    by (simp add: df_history_all)
qed

lemma campus_view:
  "vw_student_services example_schema (store (world0 campus_db)) = [ada_history, grace_history]"
  by (simp add: example_schema_def student_services_view_def world0_def campus_db_def ada_def
      grace_def tutoring_def assignment_def ada_history_def grace_history_def)

lemma campus_names:
  "student_name ada_history = ''Ada Lovelace''" "student_name grace_history = ''Grace Hopper''"
  "collation example_schema = (=)"
  by (simp_all add: ada_history_def grace_history_def example_schema_def)

theorem df_history_filter_witness:
  "fst (df_history example_schema no_faults ''Ada'' (world0 campus_db)) =
     Inr \<lparr>columns = history_columns, rows = [history_cells ada_history]\<rparr> \<and>
   fst (df_history example_schema no_faults ''Hopper'' (world0 campus_db)) =
     Inr \<lparr>columns = history_columns, rows = [history_cells grace_history]\<rparr> \<and>
   fst (df_history example_schema no_faults [] (world0 campus_db)) =
     Inr \<lparr>columns = history_columns,
          rows = [history_cells ada_history, history_cells grace_history]\<rparr>"
proof -
  have f: "connect_fault no_faults = None" "read_fault no_faults = None"
    by (simp_all add: no_faults_def)
  have p: "plain ''Ada''" "plain ''Hopper''"
    by (simp_all add: plain_def wildcard_def)
  from df_history_filter [OF f, of "''Ada''" example_schema "world0 campus_db"] p(1)
  have a: "fst (df_history example_schema no_faults ''Ada'' (world0 campus_db)) =
     Inr \<lparr>columns = history_columns, rows = [history_cells ada_history]\<rparr>"
    by (simp add: campus_view campus_names)
  from df_history_filter [OF f, of "''Hopper''" example_schema "world0 campus_db"] p(2)
  have b: "fst (df_history example_schema no_faults ''Hopper'' (world0 campus_db)) =
     Inr \<lparr>columns = history_columns, rows = [history_cells grace_history]\<rparr>"
    by (simp add: campus_view campus_names)
  from df_history_filter [OF f, of "[]" example_schema "world0 campus_db"]
  have c: "fst (df_history example_schema no_faults [] (world0 campus_db)) =
     Inr \<lparr>columns = history_columns,
          rows = [history_cells ada_history, history_cells grace_history]\<rparr>"
    by (simp add: campus_view)
  from a b c show ?thesis by simp
qed

text \<open>
  C6 as stated fails for a term with a wildcard: the term \<open>_\<close> matches every name that
  has a character, so both rows of the view come back, and neither name contains an
  underscore.
\<close>

theorem df_history_wildcard_term:
  "fst (df_history example_schema no_faults ''_'' (world0 campus_db)) =
     Inr \<lparr>columns = history_columns,
          rows = [history_cells ada_history, history_cells grace_history]\<rparr> \<and>
   vw_student_services example_schema (store (world0 campus_db)) =
     [ada_history, grace_history] \<and>
   filter (\<lambda>r. contains (collation example_schema) ''_'' (student_name r))
     (vw_student_services example_schema (store (world0 campus_db))) = [] \<and>
   fst (df_history example_schema no_faults ''_'' (world0 campus_db)) \<noteq>
     Inr \<lparr>columns = history_columns,
          rows = map history_cells
            (filter (\<lambda>r. contains (collation example_schema) ''_'' (student_name r))
               (vw_student_services example_schema (store (world0 campus_db))))\<rparr>"
proof -
  have f: "connect_fault no_faults = None" "read_fault no_faults = None"
    by (simp_all add: no_faults_def)
  have a: "fst (df_history example_schema no_faults ''_'' (world0 campus_db)) =
     Inr \<lparr>columns = history_columns,
          rows = [history_cells ada_history, history_cells grace_history]\<rparr>"
    by (simp add: df_history_like f campus_view campus_names)
  have b: "filter (\<lambda>r. contains (collation example_schema) ''_'' (student_name r))
     (vw_student_services example_schema (store (world0 campus_db))) = []"
    by (simp add: campus_view campus_names)
  from a b show ?thesis by (simp add: campus_view)
qed


section \<open>Assigning a service\<close>

























end
